theory Spec2Isabelle
  imports Complex_Main
begin

section \<open>Python values and exceptions\<close>

text \<open>
  Exceptions are values. \<open>OperationalError\<close> is \<open>sqlite3.OperationalError\<close>,
  \<open>RuntimeError\<close> the built-in one raised by \<open>backend/api_client.py\<close>; \<open>KeyError\<close>
  and \<open>IndexError\<close> come from subscripting, \<open>ZeroDivisionError\<close> and
  \<open>OverflowError\<close> from arithmetic; \<open>LibraryError\<close> stands for any other
  exception raised inside a library call (\<open>requests\<close>, \<open>json\<close>, \<open>open\<close>) and
  carries the text that \<open>str(e)\<close> gives. A Python \<open>str\<close> is a \<open>string\<close>, one
  \<open>char\<close> for each code point.
\<close>

datatype exc =
    OperationalError string
  | RuntimeError string
  | KeyError string
  | IndexError string
  | ZeroDivisionError string
  | OverflowError string
  | LibraryError string

fun str_exc :: "exc \<Rightarrow> string" where
  "str_exc (OperationalError m) = m"
| "str_exc (RuntimeError m) = m"
| "str_exc (KeyError k) = [CHR 0x27] @ k @ [CHR 0x27]"
| "str_exc (IndexError m) = m"
| "str_exc (ZeroDivisionError m) = m"
| "str_exc (OverflowError m) = m"
| "str_exc (LibraryError m) = m"

section \<open>Python floats\<close>

text \<open>
  A Python \<open>float\<close> is an IEEE 754 double. A finite one is \<open>Fin x\<close>, with \<open>x\<close> the real
  number it denotes (the sign of a zero is not kept); \<open>PInf\<close> and \<open>NInf\<close> are the
  infinities. No operation below produces a NaN.
\<close>

datatype pyfloat = Fin real | PInf | NInf

definition pow2 :: "int \<Rightarrow> real" where
  "pow2 e = (if 0 \<le> e then 2 ^ nat e else 1 / 2 ^ nat (- e))"

text \<open>The nearest integer, a tie going to the even one.\<close>

definition round_half_even :: "real \<Rightarrow> int" where
  "round_half_even x =
     (let f = \<lfloor>x\<rfloor>; r = x - of_int f
      in if r < 1 / 2 then f else if 1 / 2 < r then f + 1 else if even f then f else f + 1)"

text \<open>
  \<open>binade n a\<close>, for \<open>a > 0\<close>: the exponent \<open>e\<close> with \<open>2^e \<le> a < 2^(e+1)\<close>, found
  by halving or doubling at most \<open>n\<close> times. With \<open>n = 2200\<close> every exponent a
  double can have is reached, and beyond that range the value is clamped or
  overflows whatever the exponent found.
\<close>

fun binade :: "nat \<Rightarrow> real \<Rightarrow> int" where
  "binade 0 a = 0"
| "binade (Suc n) a =
     (if 2 \<le> a then binade n (a / 2) + 1
      else if a < 1 then binade n (a * 2) - 1
      else 0)"

text \<open>
  \<open>to_double x\<close>: the double nearest to the real \<open>x\<close>, ties to the even
  significand (the rounding of every IEEE operation). The spacing \<open>u\<close> of the
  doubles around \<open>x\<close> is \<open>2^(e - 52)\<close>, and \<open>2^(-1074)\<close> in the subnormal range; a
  result of magnitude \<open>2^1024\<close> or more is an infinity.
\<close>

definition to_double :: "real \<Rightarrow> pyfloat" where
  "to_double x =
     (if x = 0 then Fin 0
      else
        (let u = pow2 (max (binade 2200 \<bar>x\<bar> - 52) (- 1074));
             y = of_int (round_half_even (x / u)) * u
         in if 2 ^ 1024 \<le> y then PInf else if y \<le> - (2 ^ 1024) then NInf else Fin y))"

text \<open>
  The operations the gateway client uses. \<open>float_sub\<close> is the difference of two
  finite floats. \<open>py_round2\<close> is \<open>round(x, 2)\<close>: the exact value of the float is
  rounded to the nearest multiple of \<open>1/100\<close>, ties to even, and the double
  nearest to that decimal is returned; an infinity rounds to itself.
  \<open>positive\<close> is \<open>x > 0\<close>. \<open>int_truediv\<close> is \<open>n / x\<close> for an \<open>int\<close> \<open>n\<close>: the integer is
  converted to a float first (\<open>OverflowError\<close> when it is too large), a zero
  divisor raises \<open>ZeroDivisionError\<close>, and the quotient is rounded to a double.
\<close>

definition float_sub :: "real \<Rightarrow> real \<Rightarrow> pyfloat" where
  "float_sub a b = to_double (a - b)"

definition py_round2 :: "pyfloat \<Rightarrow> pyfloat" where
  "py_round2 v =
     (case v of
        Fin x \<Rightarrow> to_double (of_int (round_half_even (x * 100)) / 100)
      | PInf \<Rightarrow> PInf
      | NInf \<Rightarrow> NInf)"

definition positive :: "pyfloat \<Rightarrow> bool" where
  "positive v = (case v of Fin x \<Rightarrow> 0 < x | PInf \<Rightarrow> True | NInf \<Rightarrow> False)"

definition int_truediv :: "int \<Rightarrow> pyfloat \<Rightarrow> exc + pyfloat" where
  "int_truediv n v =
     (case to_double (of_int n) of
        Fin a \<Rightarrow>
          (case v of
             Fin b \<Rightarrow>
               if b = 0 then Inl (ZeroDivisionError ''float division by zero'')
               else Inr (to_double (a / b))
           | PInf \<Rightarrow> Inr (Fin 0)
           | NInf \<Rightarrow> Inr (Fin 0))
      | PInf \<Rightarrow> Inl (OverflowError ''int too large to convert to float'')
      | NInf \<Rightarrow> Inl (OverflowError ''int too large to convert to float''))"

text \<open>
  A number of a usage mapping: a Python \<open>int\<close> (unbounded) or a \<open>float\<close>. A \<open>dict\<close>
  with string keys is an association list in insertion order.
\<close>

datatype pynum = PyInt int | PyFloat pyfloat

type_synonym usage_dict = "(string \<times> pynum) list"

section \<open>The persistence store (\<open>backend/database.py\<close>)\<close>

text \<open>
  The SQLite file holds the relations \<open>sessions\<close> and \<open>messages\<close>. A row is a record
  with one field for each column of the schema of \<open>init_db\<close>; a \<open>TEXT\<close> column that
  may hold \<open>NULL\<close> is an option. A store written by an older version can lack columns
  of \<open>sessions\<close>, so the store records which columns that relation has
  (\<open>session_columns\<close>); the field of an absent column carries no information.
  \<open>sqlite_sequence\<close> is the counter that \<open>AUTOINCREMENT\<close> keeps for \<open>messages\<close>.
  Row ids are unbounded integers (SQLite's are 64-bit; the bound is not modelled).
  \<open>CURRENT_TIMESTAMP\<close> is read from the environment: the operations that insert a
  row take the time as their first argument.
\<close>

type_synonym timestamp = nat

record session_row =
  s_id :: string
  s_title :: "string option"
  s_image_path :: "string option"
  s_mode :: "string option"
  s_created_at :: timestamp

record message_row =
  m_id :: int
  m_session_id :: string
  m_role :: string
  m_content :: string
  m_usage_data :: "string option"
  m_timestamp :: timestamp

record db =
  session_columns :: "string list"
  sessions :: "session_row list"
  messages :: "message_row list"
  sqlite_sequence :: int

definition DEFAULT_TITLE :: string where
  "DEFAULT_TITLE = ''New Inspection''"

definition DEFAULT_MODE :: string where
  "DEFAULT_MODE = ''General Analysis''"

definition schema_columns :: "string list" where
  "schema_columns = [''id'', ''title'', ''image_path'', ''mode'', ''created_at'']"

text \<open>
  \<open>init_db\<close>: \<open>CREATE TABLE IF NOT EXISTS\<close> for both relations. On a missing file
  (\<open>None\<close>) it creates them empty with the current schema; on an existing store it
  changes nothing.
\<close>

definition init_db :: "db option \<Rightarrow> db" where
  "init_db file =
     (case file of
        None \<Rightarrow> \<lparr>session_columns = schema_columns, sessions = [], messages = [],
                  sqlite_sequence = 0\<rparr>
      | Some d \<Rightarrow> d)"

text \<open>
  A statement on \<open>sessions\<close> that names a column the relation does not have fails
  with \<open>OperationalError\<close>; \<open>missing_column\<close> finds the first such column.
\<close>

definition missing_column :: "string list \<Rightarrow> db \<Rightarrow> string option" where
  "missing_column cs d = find (\<lambda>c. c \<notin> set (session_columns d)) cs"

definition schema_ok :: "db \<Rightarrow> bool" where
  "schema_ok d = (missing_column schema_columns d = None)"

text \<open>\<open>UPDATE sessions SET ... WHERE ...\<close>, naming the columns \<open>cs\<close>.\<close>

definition sql_update_sessions ::
  "string list \<Rightarrow> (session_row \<Rightarrow> bool) \<Rightarrow> (session_row \<Rightarrow> session_row) \<Rightarrow> db \<Rightarrow> exc + db" where
  "sql_update_sessions cs wh upd d =
     (case missing_column cs d of
        Some c \<Rightarrow> Inl (OperationalError (''no such column: '' @ c))
      | None \<Rightarrow> Inr (d\<lparr>sessions := map (\<lambda>s. if wh s then upd s else s) (sessions d)\<rparr>))"

text \<open>
  \<open>create_session\<close>: \<open>INSERT OR IGNORE INTO sessions (id, title, mode)\<close>. The primary
  key \<open>id\<close> makes the insert a no-op when a row with that id exists. \<open>image_path\<close>
  is left \<open>NULL\<close>, \<open>created_at\<close> takes its default, the current time.
\<close>

definition create_session :: "timestamp \<Rightarrow> string \<Rightarrow> string \<Rightarrow> string \<Rightarrow> db \<Rightarrow> exc + db" where
  "create_session now session_id title mode d =
     (case missing_column [''id'', ''title'', ''mode''] d of
        Some c \<Rightarrow> Inl (OperationalError (''table sessions has no column named '' @ c))
      | None \<Rightarrow>
          if session_id \<in> set (map s_id (sessions d)) then Inr d
          else Inr (d\<lparr>sessions := sessions d @
                  [\<lparr>s_id = session_id, s_title = Some title, s_image_path = None,
                    s_mode = Some mode, s_created_at = now\<rparr>]\<rparr>))"

text \<open>\<open>ALTER TABLE sessions ADD COLUMN mode TEXT DEFAULT 'General Analysis'\<close>.\<close>

definition sql_add_column_mode :: "db \<Rightarrow> exc + db" where
  "sql_add_column_mode d =
     (if ''mode'' \<in> set (session_columns d)
      then Inl (OperationalError ''duplicate column name: mode'')
      else Inr (d\<lparr>session_columns := session_columns d @ [''mode''],
                  sessions := map (\<lambda>s. s\<lparr>s_mode := Some DEFAULT_MODE\<rparr>) (sessions d)\<rparr>))"

definition sql_update_mode :: "string \<Rightarrow> string \<Rightarrow> db \<Rightarrow> exc + db" where
  "sql_update_mode mode session_id d =
     sql_update_sessions [''mode'', ''id''] (\<lambda>s. s_id s = session_id)
       (\<lambda>s. s\<lparr>s_mode := Some mode\<rparr>) d"

text \<open>
  \<open>update_session_mode\<close>: the update; on \<open>OperationalError\<close> the column is added and
  the update run again, and whatever that second attempt raises is dropped
  (\<open>except: pass\<close>). The commit follows on every path, so what the statements
  that succeeded did is kept.
\<close>

definition update_session_mode :: "string \<Rightarrow> string \<Rightarrow> db \<Rightarrow> exc + db" where
  "update_session_mode session_id mode d =
     (case sql_update_mode mode session_id d of
        Inr d' \<Rightarrow> Inr d'
      | Inl (OperationalError m) \<Rightarrow>
          (case sql_add_column_mode d of
             Inl e \<Rightarrow> Inr d
           | Inr d1 \<Rightarrow>
               (case sql_update_mode mode session_id d1 of
                  Inl e \<Rightarrow> Inr d1
                | Inr d2 \<Rightarrow> Inr d2))
      | Inl e \<Rightarrow> Inl e)"

text \<open>\<open>update_session_image\<close>: the update; an \<open>OperationalError\<close> is dropped.\<close>

definition update_session_image :: "string \<Rightarrow> string \<Rightarrow> db \<Rightarrow> exc + db" where
  "update_session_image session_id image_path d =
     (case sql_update_sessions [''image_path'', ''id''] (\<lambda>s. s_id s = session_id)
             (\<lambda>s. s\<lparr>s_image_path := Some image_path\<rparr>) d of
        Inr d' \<Rightarrow> Inr d'
      | Inl (OperationalError m) \<Rightarrow> Inr d
      | Inl e \<Rightarrow> Inl e)"

text \<open>\<open>update_session_title\<close>: the update, with no handler.\<close>

definition update_session_title :: "string \<Rightarrow> string \<Rightarrow> db \<Rightarrow> exc + db" where
  "update_session_title session_id new_title d =
     sql_update_sessions [''title'', ''id''] (\<lambda>s. s_id s = session_id)
       (\<lambda>s. s\<lparr>s_title := Some new_title\<rparr>) d"

text \<open>\<open>get_session_meta\<close>: \<open>SELECT * FROM sessions WHERE id = ?\<close> and \<open>fetchone\<close>.\<close>

definition get_session_meta :: "string \<Rightarrow> db \<Rightarrow> exc + session_row option" where
  "get_session_meta session_id d =
     (case missing_column [''id''] d of
        Some c \<Rightarrow> Inl (OperationalError (''no such column: '' @ c))
      | None \<Rightarrow> Inr (find (\<lambda>s. s_id s = session_id) (sessions d)))"

text \<open>
  \<open>add_message\<close>. \<open>truthy_usage\<close> is Python's truth value of the \<open>usage\<close> argument:
  \<open>None\<close> and the empty mapping are false. \<open>dumps\<close> is \<open>json.dumps\<close>, a parameter.
  The new row takes the next \<open>AUTOINCREMENT\<close> id, one more than the largest of the
  ids in the relation and the counter. A user message then renames the session
  if its title is still the default. An exception leaves the connection
  uncommitted: the store is unchanged.
\<close>

definition truthy_usage :: "usage_dict option \<Rightarrow> bool" where
  "truthy_usage usage = (case usage of None \<Rightarrow> False | Some u \<Rightarrow> u \<noteq> [])"

definition next_rowid :: "db \<Rightarrow> int" where
  "next_rowid d = fold max (map m_id (messages d)) (max 0 (sqlite_sequence d)) + 1"

definition auto_title :: "string \<Rightarrow> string" where
  "auto_title content = (if length content > 30 then take 30 content @ ''...'' else content)"

definition add_message ::
  "(usage_dict \<Rightarrow> string) \<Rightarrow> timestamp \<Rightarrow> string \<Rightarrow> string \<Rightarrow> string \<Rightarrow> usage_dict option \<Rightarrow> db
     \<Rightarrow> exc + db" where
  "add_message dumps now session_id role content usage d =
     (let usage_json = (if truthy_usage usage then Some (dumps (the usage)) else None);
          rowid = next_rowid d;
          d1 = d\<lparr>messages := messages d @
                 [\<lparr>m_id = rowid, m_session_id = session_id, m_role = role,
                   m_content = content, m_usage_data = usage_json, m_timestamp = now\<rparr>],
                sqlite_sequence := rowid\<rparr>
      in if role = ''user''
         then sql_update_sessions [''title'', ''id'']
                (\<lambda>s. s_id s = session_id \<and> s_title s = Some ''New Inspection'')
                (\<lambda>s. s\<lparr>s_title := Some (auto_title content)\<rparr>) d1
         else Inr d1)"

text \<open>
  \<open>get_all_sessions\<close>: the left join pairs a session with each of its messages, or
  with \<open>NULL\<close> when it has none; \<open>WHERE\<close> keeps a pair with a message, an image path
  that is not \<open>NULL\<close>, or a title for which \<open>title != 'New Inspection'\<close> is true
  (for a \<open>NULL\<close> title the comparison is \<open>NULL\<close>, not true); \<open>DISTINCT s.*\<close> keeps one
  copy of each session; \<open>ORDER BY created_at DESC\<close> sorts. SQLite leaves the order
  of rows with equal \<open>created_at\<close> open; the model keeps them in the order met.
\<close>

definition left_join :: "session_row list \<Rightarrow> message_row list \<Rightarrow> (session_row \<times> message_row option) list" where
  "left_join ss ms =
     concat (map (\<lambda>s. case filter (\<lambda>m. m_session_id m = s_id s) ms of
                         [] \<Rightarrow> [(s, None)]
                       | m # ms' \<Rightarrow> map (\<lambda>m'. (s, Some m')) (m # ms')) ss)"

definition listed :: "session_row \<times> message_row option \<Rightarrow> bool" where
  "listed p =
     (snd p \<noteq> None \<or> s_image_path (fst p) \<noteq> None \<or>
      (case s_title (fst p) of None \<Rightarrow> False | Some t \<Rightarrow> t \<noteq> ''New Inspection''))"

definition order_by_created_at_desc :: "session_row list \<Rightarrow> session_row list" where
  "order_by_created_at_desc ss = sort_key (\<lambda>s. - int (s_created_at s)) ss"

definition get_all_sessions :: "db \<Rightarrow> exc + session_row list" where
  "get_all_sessions d =
     (case missing_column [''image_path'', ''title'', ''id'', ''created_at''] d of
        Some c \<Rightarrow> Inl (OperationalError (''no such column: s.'' @ c))
      | None \<Rightarrow>
          Inr (order_by_created_at_desc
                 (remdups (map fst (filter listed (left_join (sessions d) (messages d)))))))"

text \<open>
  \<open>get_session_history\<close>: the rows of the session by ascending id; each becomes a
  mapping with \<open>role\<close> and \<open>content\<close>, and with \<open>usage\<close> when \<open>usage_data\<close> is
  truthy (not \<open>NULL\<close>, not the empty string). \<open>loads\<close> is \<open>json.loads\<close>, a parameter;
  it can raise. \<open>chat_msg\<close> is the mapping; an absent \<open>usage\<close> key is \<open>None\<close>.
\<close>

record chat_msg =
  msg_role :: string
  msg_content :: string
  msg_usage :: "usage_dict option"

definition select_messages :: "string \<Rightarrow> db \<Rightarrow> message_row list" where
  "select_messages session_id d =
     sort_key m_id (filter (\<lambda>m. m_session_id m = session_id) (messages d))"

definition truthy_text :: "string option \<Rightarrow> bool" where
  "truthy_text t = (case t of None \<Rightarrow> False | Some s \<Rightarrow> s \<noteq> [])"

definition row_to_msg :: "(string \<Rightarrow> exc + usage_dict) \<Rightarrow> message_row \<Rightarrow> exc + chat_msg" where
  "row_to_msg loads row =
     (if truthy_text (m_usage_data row)
      then (case loads (the (m_usage_data row)) of
              Inl e \<Rightarrow> Inl e
            | Inr u \<Rightarrow> Inr \<lparr>msg_role = m_role row, msg_content = m_content row, msg_usage = Some u\<rparr>)
      else Inr \<lparr>msg_role = m_role row, msg_content = m_content row, msg_usage = None\<rparr>)"

fun history_loop :: "(string \<Rightarrow> exc + usage_dict) \<Rightarrow> message_row list \<Rightarrow> chat_msg list \<Rightarrow> exc + chat_msg list" where
  "history_loop loads [] history = Inr history"
| "history_loop loads (row # rows) history =
     (case row_to_msg loads row of
        Inl e \<Rightarrow> Inl e
      | Inr msg \<Rightarrow> history_loop loads rows (history @ [msg]))"

definition get_session_history :: "(string \<Rightarrow> exc + usage_dict) \<Rightarrow> string \<Rightarrow> db \<Rightarrow> exc + chat_msg list" where
  "get_session_history loads session_id d = history_loop loads (select_messages session_id d) []"

section \<open>The AI gateway client (\<open>backend/api_client.py\<close>)\<close>

text \<open>
  \<open>UsageMetrics\<close> and \<open>ChatResponse\<close> of \<open>backend/schemas.py\<close>.
\<close>

record UsageMetrics =
  prompt_tokens :: int
  completion_tokens :: int
  total_tokens :: int
  latency :: pyfloat
  throughput :: pyfloat

record ChatResponse =
  content :: string
  usage :: UsageMetrics

text \<open>
  The request: the message list and the payload that \<open>requests.post\<close> sends. The
  content of a message is a plain text or, for the final user message, a list
  of parts.
\<close>

type_synonym bytes = string

datatype part = TextPart string | ImageUrlPart string

datatype message_content = Plain string | Parts "part list"

record request_message =
  rm_role :: string
  rm_content :: message_content

record payload =
  model :: string
  request_messages :: "request_message list"
  max_tokens :: nat
  temperature :: pyfloat
  stream :: bool

text \<open>
  The response. \<open>json\<close> is what \<open>response.json()\<close> returns or raises. The parsed
  body is taken to be a JSON object of the shape the gateway documents:
  \<open>choices\<close>, when present, is a list of objects, of which only the \<open>message\<close>
  entry and in it the \<open>content\<close> text matter (each may be absent); \<open>content\<close>,
  when present, is a text; \<open>usage\<close>, when present, maps names to integers.
  \<open>None\<close> is an absent key.
\<close>

type_synonym choice = "string option option"

record api_data =
  d_choices :: "choice list option"
  d_content :: "string option"
  d_usage :: "(string \<times> int) list option"

record Response =
  status_code :: int
  body_text :: string
  json :: "exc + api_data"

text \<open>
  The environment of one call: the two readings of \<open>time.time()\<close>, the settings,
  the transport (\<open>requests.post\<close>, which returns a response or raises) and the
  base64 encoder.
\<close>

record gateway_env =
  start_time :: real
  end_time :: real
  API_KEY :: "string option"
  API_URL :: string
  post :: "string \<Rightarrow> (string \<times> string) list \<Rightarrow> payload \<Rightarrow> exc + Response"
  b64encode :: "bytes \<Rightarrow> string"

definition MODEL_NAME :: string where
  "MODEL_NAME = ''Qwen/Qwen3-VL-30B-A3B-Instruct''"

definition headers :: "gateway_env \<Rightarrow> (string \<times> string) list" where
  "headers env =
     [(''Authorization'', ''Bearer '' @ (case API_KEY env of None \<Rightarrow> ''None'' | Some k \<Rightarrow> k)),
      (''Content-Type'', ''application/json'')]"

definition build_messages ::
  "gateway_env \<Rightarrow> string \<Rightarrow> bytes option \<Rightarrow> chat_msg list \<Rightarrow> string \<Rightarrow> request_message list" where
  "build_messages env current_question image_file chat_history system_prompt =
     [\<lparr>rm_role = ''system'', rm_content = Plain system_prompt\<rparr>]
     @ map (\<lambda>msg. \<lparr>rm_role = msg_role msg, rm_content = Plain (msg_content msg)\<rparr>) chat_history
     @ [\<lparr>rm_role = ''user'',
         rm_content = Parts
           (TextPart current_question #
            (case image_file of
               None \<Rightarrow> []
             | Some img \<Rightarrow> [ImageUrlPart (''data:image/jpeg;base64,'' @ b64encode env img)]))\<rparr>]"

definition build_payload ::
  "gateway_env \<Rightarrow> string \<Rightarrow> bytes option \<Rightarrow> chat_msg list \<Rightarrow> string \<Rightarrow> payload" where
  "build_payload env current_question image_file chat_history system_prompt =
     \<lparr>model = MODEL_NAME,
      request_messages = build_messages env current_question image_file chat_history system_prompt,
      max_tokens = 2048, temperature = to_double (6 / 10), stream = False\<rparr>"

text \<open>
  Step 9: \<open>data['choices'][0]['message']['content']\<close> when \<open>choices\<close> is present,
  else \<open>data['content']\<close> when that is present, else the placeholder.
\<close>

definition extract_content :: "api_data \<Rightarrow> exc + string" where
  "extract_content data =
     (case d_choices data of
        Some choices \<Rightarrow>
          (case choices of
             [] \<Rightarrow> Inl (IndexError ''list index out of range'')
           | c # cs \<Rightarrow>
               (case c of
                  None \<Rightarrow> Inl (KeyError ''message'')
                | Some m \<Rightarrow>
                    (case m of None \<Rightarrow> Inl (KeyError ''content'') | Some t \<Rightarrow> Inr t)))
      | None \<Rightarrow>
          (case d_content data of
             Some t \<Rightarrow> Inr t
           | None \<Rightarrow> Inr ''Error: No content returned.''))"

text \<open>Step 10: \<open>data.get("usage", {...zeros...})\<close> and \<open>raw_usage.get(key, 0)\<close>.\<close>

definition raw_usage_of :: "api_data \<Rightarrow> (string \<times> int) list" where
  "raw_usage_of data =
     (case d_usage data of
        None \<Rightarrow> [(''prompt_tokens'', 0), (''completion_tokens'', 0), (''total_tokens'', 0)]
      | Some u \<Rightarrow> u)"

definition usage_get :: "(string \<times> int) list \<Rightarrow> string \<Rightarrow> int" where
  "usage_get raw_usage k = (case map_of raw_usage k of None \<Rightarrow> 0 | Some v \<Rightarrow> v)"

text \<open>
  Step 11: \<open>tps = round(total_tokens / latency, 2) if latency > 0 else 0\<close>. The
  division is made only when the latency is positive; the \<open>0\<close> of the other
  branch becomes the float \<open>0.0\<close> in \<open>UsageMetrics\<close>.
\<close>

definition tokens_per_second :: "int \<Rightarrow> pyfloat \<Rightarrow> exc + pyfloat" where
  "tokens_per_second tokens lat =
     (if positive lat
      then (case int_truediv tokens lat of Inl e \<Rightarrow> Inl e | Inr q \<Rightarrow> Inr (py_round2 q))
      else Inr (Fin 0))"

text \<open>
  \<open>chat_with_industrial_ai\<close>. \<open>start_time\<close> and \<open>end_time\<close> of the environment are
  the two readings of \<open>time.time()\<close>, finite floats. Everything from the request
  on is inside the \<open>try\<close>: whatever is raised there, the \<open>RuntimeError\<close> of step 8
  included, is caught by \<open>except Exception\<close> and raised again as
  \<open>RuntimeError("Connection failed: " + str(e))\<close>.
\<close>

definition try_body ::
  "gateway_env \<Rightarrow> string \<Rightarrow> bytes option \<Rightarrow> chat_msg list \<Rightarrow> string \<Rightarrow> exc + ChatResponse" where
  "try_body env current_question image_file chat_history system_prompt =
     (case post env (API_URL env) (headers env)
             (build_payload env current_question image_file chat_history system_prompt) of
        Inl e \<Rightarrow> Inl e
      | Inr response \<Rightarrow>
          (let lat = py_round2 (float_sub (end_time env) (start_time env))
           in if status_code response \<noteq> 200
              then Inl (RuntimeError (''API Error: '' @ body_text response))
              else
                (case json response of
                   Inl e \<Rightarrow> Inl e
                 | Inr data \<Rightarrow>
                     (case extract_content data of
                        Inl e \<Rightarrow> Inl e
                      | Inr text_answer \<Rightarrow>
                          (let raw_usage = raw_usage_of data;
                               tokens = usage_get raw_usage ''total_tokens''
                           in case tokens_per_second tokens lat of
                                Inl e \<Rightarrow> Inl e
                              | Inr tps \<Rightarrow>
                                  Inr \<lparr>content = text_answer,
                                       usage = \<lparr>prompt_tokens = usage_get raw_usage ''prompt_tokens'',
                                                completion_tokens = usage_get raw_usage ''completion_tokens'',
                                                total_tokens = tokens,
                                                latency = lat,
                                                throughput = tps\<rparr>\<rparr>)))))"

definition chat_with_industrial_ai ::
  "gateway_env \<Rightarrow> string \<Rightarrow> bytes option \<Rightarrow> chat_msg list \<Rightarrow> string \<Rightarrow> exc + ChatResponse" where
  "chat_with_industrial_ai env current_question image_file chat_history system_prompt =
     (case try_body env current_question image_file chat_history system_prompt of
        Inl e \<Rightarrow> Inl (RuntimeError (''Connection failed: '' @ str_exc e))
      | Inr r \<Rightarrow> Inr r)"

section \<open>The session orchestrator (\<open>app.py\<close>)\<close>

text \<open>
  What \<open>main\<close> does with a submitted question (step 7). The state is the store,
  Streamlit's session state (the active session id and the in-memory message
  list) and the notices shown to the user, in order. \<open>active_image\<close> is the
  uploaded file, the path of the image saved earlier, or \<open>None\<close>. The emoji of
  the notices are left out of their texts.
\<close>

datatype image = Uploaded bytes | Saved string

datatype notice =
    Toast string
  | ErrorBox string
  | Markdown string string
  | Metrics UsageMetrics

record app_state =
  store :: db
  active_session_id :: string
  st_messages :: "chat_msg list"
  ui :: "notice list"

text \<open>
  The environment of one submit: the gateway's, \<open>json.dumps\<close>, reading a file
  (\<open>open(path, "rb").read()\<close>, which can raise), the store's clock at the two
  inserts, and the guardrail text of \<open>backend/schemas.py\<close>.
\<close>

record app_env =
  gateway :: gateway_env
  json_dumps :: "usage_dict \<Rightarrow> string"
  read_file :: "string \<Rightarrow> exc + bytes"
  now_user :: timestamp
  now_assistant :: timestamp
  GUARDRAIL_PROMPT :: string

definition truthy_image :: "image option \<Rightarrow> bool" where
  "truthy_image active_image =
     (case active_image of
        None \<Rightarrow> False
      | Some (Uploaded b) \<Rightarrow> True
      | Some (Saved p) \<Rightarrow> p \<noteq> [])"

text \<open>\<open>response.usage.model_dump()\<close>.\<close>

definition model_dump :: "UsageMetrics \<Rightarrow> usage_dict" where
  "model_dump m =
     [(''prompt_tokens'', PyInt (prompt_tokens m)),
      (''completion_tokens'', PyInt (completion_tokens m)),
      (''total_tokens'', PyInt (total_tokens m)),
      (''latency'', PyFloat (latency m)),
      (''throughput'', PyFloat (throughput m))]"

definition final_system_prompt :: "app_env \<Rightarrow> string \<Rightarrow> string \<Rightarrow> string" where
  "final_system_prompt env base_instruction user_requirements =
     base_instruction @ [CHR 0x0A, CHR 0x0A] @ GUARDRAIL_PROMPT env @
     (if user_requirements \<noteq> []
      then [CHR 0x0A, CHR 0x0A] @ ''ADDITIONAL OPERATOR INSTRUCTIONS:'' @ [CHR 0x0A] @ user_requirements
      else [])"

text \<open>
  The first statements of the \<open>try\<close>: the image bytes (read from the file when the
  image is a saved path), then the gateway call with the history before the
  current question (\<open>st.session_state.messages[:-1]\<close>).
\<close>

definition image_bytes :: "app_env \<Rightarrow> image \<Rightarrow> exc + bytes" where
  "image_bytes env img = (case img of Saved p \<Rightarrow> read_file env p | Uploaded b \<Rightarrow> Inr b)"

definition gateway_call ::
  "app_env \<Rightarrow> string \<Rightarrow> image \<Rightarrow> chat_msg list \<Rightarrow> string \<Rightarrow> string \<Rightarrow> exc + ChatResponse" where
  "gateway_call env prompt img msgs base_instruction user_requirements =
     (case image_bytes env img of
        Inl e \<Rightarrow> Inl e
      | Inr img_bytes \<Rightarrow>
          chat_with_industrial_ai (gateway env) prompt (Some img_bytes) (butlast msgs)
            (final_system_prompt env base_instruction user_requirements))"

text \<open>\<open>except Exception as e: st.error(f"SYSTEM FAILURE: {str(e)}")\<close>.\<close>

definition system_failure :: "exc \<Rightarrow> app_state \<Rightarrow> app_state" where
  "system_failure e a = a\<lparr>ui := ui a @ [ErrorBox (''SYSTEM FAILURE: '' @ str_exc e)]\<rparr>"

text \<open>
  \<open>submit\<close>: without an active image only the toast is shown. Otherwise the user
  message is appended to the session state and stored (outside the \<open>try\<close>: an
  exception of this \<open>add_message\<close> leaves \<open>main\<close>), then, inside the \<open>try\<close>, the
  gateway is called, the answer shown, stored and appended to the session
  state; an exception anywhere in the \<open>try\<close> is shown as an error and ends it.
\<close>

definition submit ::
  "app_env \<Rightarrow> string \<Rightarrow> image option \<Rightarrow> string \<Rightarrow> string \<Rightarrow> app_state \<Rightarrow> exc + app_state" where
  "submit env prompt active_image base_instruction user_requirements a =
     (if \<not> truthy_image active_image
      then Inr (a\<lparr>ui := ui a @ [Toast ''ERR: NO VISUAL INPUT DETECTED'']\<rparr>)
      else
        (let msgs1 = st_messages a @ [\<lparr>msg_role = ''user'', msg_content = prompt, msg_usage = None\<rparr>]
         in case add_message (json_dumps env) (now_user env) (active_session_id a) ''user'' prompt
                   None (store a) of
              Inl e \<Rightarrow> Inl e
            | Inr d1 \<Rightarrow>
                (let a1 = a\<lparr>store := d1, st_messages := msgs1,
                            ui := ui a @ [Markdown ''user'' prompt]\<rparr>
                 in case gateway_call env prompt (the active_image) msgs1 base_instruction
                           user_requirements of
                      Inl e \<Rightarrow> Inr (system_failure e a1)
                    | Inr response \<Rightarrow>
                        (let usage_dict = model_dump (usage response);
                             a2 = a1\<lparr>ui := ui a1 @ [Markdown ''assistant'' (content response),
                                                    Metrics (usage response)]\<rparr>
                         in case add_message (json_dumps env) (now_assistant env)
                                   (active_session_id a) ''assistant'' (content response)
                                   (Some usage_dict) d1 of
                              Inl e \<Rightarrow> Inr (system_failure e a2)
                            | Inr d2 \<Rightarrow>
                                Inr (a2\<lparr>store := d2,
                                        st_messages := msgs1 @
                                          [\<lparr>msg_role = ''assistant'',
                                            msg_content = content response,
                                            msg_usage = Some usage_dict\<rparr>]\<rparr>)))))"

section \<open>Auxiliary definitions\<close>

text \<open>
  The row that the \<open>INSERT\<close> of \<open>add_message\<close> adds, the effect of its \<open>UPDATE\<close> on
  one session row, and the mapping that \<open>get_session_history\<close> is expected to give
  back for an appended message.
\<close>

definition inserted_row ::
  "(usage_dict \<Rightarrow> string) \<Rightarrow> timestamp \<Rightarrow> string \<Rightarrow> string \<Rightarrow> string \<Rightarrow> usage_dict option \<Rightarrow> db
     \<Rightarrow> message_row" where
  "inserted_row dumps now sid r c u d =
     \<lparr>m_id = next_rowid d, m_session_id = sid, m_role = r, m_content = c,
      m_usage_data = (if truthy_usage u then Some (dumps (the u)) else None),
      m_timestamp = now\<rparr>"

definition renamed :: "string \<Rightarrow> string \<Rightarrow> string \<Rightarrow> session_row \<Rightarrow> session_row" where
  "renamed sid r c s =
     (if r = ''user'' \<and> s_id s = sid \<and> s_title s = Some ''New Inspection''
      then s\<lparr>s_title := Some (auto_title c)\<rparr> else s)"

definition stored_msg :: "string \<Rightarrow> string \<Rightarrow> usage_dict option \<Rightarrow> chat_msg" where
  "stored_msg r c u =
     \<lparr>msg_role = r, msg_content = c, msg_usage = (if truthy_usage u then u else None)\<rparr>"

text \<open>
  What the theorems ask of the JSON library for one usage argument: the text
  \<open>json.dumps\<close> gives for a non-empty mapping is not empty, and \<open>json.loads\<close> reads
  the mapping back from it.
\<close>

definition codec_ok ::
  "(usage_dict \<Rightarrow> string) \<Rightarrow> (string \<Rightarrow> exc + usage_dict) \<Rightarrow> usage_dict option \<Rightarrow> bool" where
  "codec_ok dumps loads u =
     (\<not> truthy_usage u \<or> (dumps (the u) \<noteq> [] \<and> loads (dumps (the u)) = Inr (the u)))"

text \<open>A session has a message when some row of \<open>messages\<close> refers to its id.\<close>

definition has_message :: "db \<Rightarrow> session_row \<Rightarrow> bool" where
  "has_message d s = (\<exists>m \<in> set (messages d). m_session_id m = s_id s)"

text \<open>
  A caller's sequence of store operations, run in order; an exception ends the
  run. \<open>appended sid ops\<close> lists the messages the run appends to session \<open>sid\<close>,
  in order, as \<open>get_session_history\<close> is expected to give them back.
\<close>

datatype store_op =
    CreateSession timestamp string string string
  | UpdateSessionMode string string
  | UpdateSessionImage string string
  | UpdateSessionTitle string string
  | AddMessage timestamp string string string "usage_dict option"

fun run_op :: "(usage_dict \<Rightarrow> string) \<Rightarrow> store_op \<Rightarrow> db \<Rightarrow> exc + db" where
  "run_op dumps (CreateSession now sid title mode) d = create_session now sid title mode d"
| "run_op dumps (UpdateSessionMode sid mode) d = update_session_mode sid mode d"
| "run_op dumps (UpdateSessionImage sid path) d = update_session_image sid path d"
| "run_op dumps (UpdateSessionTitle sid title) d = update_session_title sid title d"
| "run_op dumps (AddMessage now sid r c u) d = add_message dumps now sid r c u d"

fun run_ops :: "(usage_dict \<Rightarrow> string) \<Rightarrow> store_op list \<Rightarrow> db \<Rightarrow> exc + db" where
  "run_ops dumps [] d = Inr d"
| "run_ops dumps (x # xs) d =
     (case run_op dumps x d of Inl e \<Rightarrow> Inl e | Inr d' \<Rightarrow> run_ops dumps xs d')"

fun appended :: "string \<Rightarrow> store_op list \<Rightarrow> chat_msg list" where
  "appended sid [] = []"
| "appended sid (AddMessage now sid' r c u # xs) =
     (if sid' = sid then stored_msg r c u # appended sid xs else appended sid xs)"
| "appended sid (x # xs) = appended sid xs"

fun op_usage :: "store_op \<Rightarrow> usage_dict option" where
  "op_usage (AddMessage now sid r c u) = u"
| "op_usage x = None"

subsection \<open>Sample data\<close>

definition sample_store :: db where
  "sample_store =
     \<lparr>session_columns = schema_columns,
      sessions = [\<lparr>s_id = ''s1'', s_title = Some ''New Inspection'', s_image_path = None,
                   s_mode = Some ''General Analysis'', s_created_at = 1\<rparr>],
      messages = [], sqlite_sequence = 0\<rparr>"

definition sample_usage :: usage_dict where
  "sample_usage =
     [(''prompt_tokens'', PyInt 60), (''completion_tokens'', PyInt 40),
      (''total_tokens'', PyInt 100), (''latency'', PyFloat (Fin 2)),
      (''throughput'', PyFloat (Fin 50))]"

definition sample_text :: string where
  "sample_text = ''{prompt_tokens: 60, completion_tokens: 40, total_tokens: 100, latency: 2.0, throughput: 50.0}''"

definition sample_dumps :: "usage_dict \<Rightarrow> string" where
  "sample_dumps u = (if u = sample_usage then sample_text else ''{}'')"

definition sample_loads :: "string \<Rightarrow> exc + usage_dict" where
  "sample_loads t =
     (if t = sample_text then Inr sample_usage
      else if t = ''{}'' then Inr []
      else Inl (LibraryError ''Expecting value''))"

text \<open>
  A store with an untouched session, a session with one message and a session
  with an image; and a store of an older version whose \<open>sessions\<close> relation has
  only the columns \<open>id\<close> and \<open>created_at\<close>.
\<close>

definition listing_store :: db where
  "listing_store =
     \<lparr>session_columns = schema_columns,
      sessions =
        [\<lparr>s_id = ''a'', s_title = Some ''New Inspection'', s_image_path = None,
          s_mode = Some ''General Analysis'', s_created_at = 10\<rparr>,
         \<lparr>s_id = ''b'', s_title = Some ''New Inspection'', s_image_path = None,
          s_mode = Some ''General Analysis'', s_created_at = 20\<rparr>,
         \<lparr>s_id = ''c'', s_title = Some ''New Inspection'',
          s_image_path = Some ''frontend/assets/c.png'',
          s_mode = Some ''Safety Audit'', s_created_at = 30\<rparr>],
      messages =
        [\<lparr>m_id = 1, m_session_id = ''b'', m_role = ''assistant'', m_content = ''ok'',
          m_usage_data = None, m_timestamp = 21\<rparr>],
      sqlite_sequence = 1\<rparr>"

definition legacy_store :: db where
  "legacy_store =
     \<lparr>session_columns = [''id'', ''created_at''],
      sessions = [\<lparr>s_id = ''s1'', s_title = None, s_image_path = None, s_mode = None,
                   s_created_at = 1\<rparr>],
      messages = [], sqlite_sequence = 0\<rparr>"

definition sample_ops :: "store_op list" where
  "sample_ops =
     [AddMessage 2 ''s1'' ''user'' ''Is the bearing worn?'' None,
      UpdateSessionMode ''s1'' ''Defect Inspection'',
      AddMessage 3 ''s2'' ''user'' ''Another session'' None,
      AddMessage 4 ''s1'' ''assistant'' ''Bearing is worn.'' (Some sample_usage)]"

text \<open>
  Gateway environments: a transport that answers every request with one given
  response, one that raises, and the responses used below.
\<close>

definition env_with :: "real \<Rightarrow> real \<Rightarrow> exc + Response \<Rightarrow> gateway_env" where
  "env_with t0 t1 outcome =
     \<lparr>start_time = t0, end_time = t1, API_KEY = Some ''key'',
      API_URL = ''https://platform.qubrid.com/api/v1/qubridai/multimodal/chat'',
      post = (\<lambda>url hs p. outcome), b64encode = (\<lambda>b. b)\<rparr>"


definition error_response :: Response where
  "error_response =
     \<lparr>status_code = 500, body_text = ''boom'', json = Inl (LibraryError ''Expecting value'')\<rparr>"

text \<open>An application state on the sample store, and submit environments.\<close>

definition sample_app :: app_state where
  "sample_app = \<lparr>store = sample_store, active_session_id = ''s1'', st_messages = [], ui = []\<rparr>"

definition app_env_with :: "exc + Response \<Rightarrow> app_env" where
  "app_env_with outcome =
     \<lparr>gateway = env_with 10 12 outcome, json_dumps = sample_dumps,
      read_file = (\<lambda>p. Inl (LibraryError ''No such file or directory'')),
      now_user = 2, now_assistant = 3, GUARDRAIL_PROMPT = ''CRITICAL OPERATIONAL PROTOCOL''\<rparr>"

section \<open>Properties of the store\<close>

subsection \<open>Schema and statements\<close>

lemma missing_column_None: "missing_column cs d = None \<longleftrightarrow> set cs \<subseteq> set (session_columns d)"
  by (auto simp: missing_column_def find_None_iff)

lemma schema_ok_columns: "schema_ok d \<Longrightarrow> set cs \<subseteq> set schema_columns \<Longrightarrow> missing_column cs d = None"
  by (auto simp: schema_ok_def missing_column_None)

lemma renamed_other: "r \<noteq> ''user'' \<Longrightarrow> map (renamed sid r c) ss = ss"
  by (induction ss) (simp_all add: renamed_def)

lemma renamed_user:
  "map (\<lambda>s. if s_id s = sid \<and> s_title s = Some ''New Inspection''
            then s\<lparr>s_title := Some (auto_title c)\<rparr> else s) ss = map (renamed sid ''user'' c) ss"
  by (induction ss) (simp_all add: renamed_def)

lemma add_message_ok:
  assumes "schema_ok d"
  shows "\<exists>d1. add_message dumps now sid r c u d = Inr d1
           \<and> messages d1 = messages d @ [inserted_row dumps now sid r c u d]
           \<and> sessions d1 = map (renamed sid r c) (sessions d)
           \<and> session_columns d1 = session_columns d"
proof -
  have cols: "missing_column [''title'', ''id''] d = None"
    using assms by (rule schema_ok_columns) (simp add: schema_columns_def)
  define d1 where "d1 = d\<lparr>messages := messages d @ [inserted_row dumps now sid r c u d],
                          sqlite_sequence := next_rowid d\<rparr>"
  have cols1: "missing_column [''title'', ''id''] d1 = None"
    using cols unfolding missing_column_def d1_def by simp
  show ?thesis
  proof (cases "r = ''user''")
    case True
    have "add_message dumps now sid r c u d =
            sql_update_sessions [''title'', ''id'']
                (\<lambda>s. s_id s = sid \<and> s_title s = Some ''New Inspection'')
                (\<lambda>s. s\<lparr>s_title := Some (auto_title c)\<rparr>) d1"
      unfolding add_message_def Let_def d1_def inserted_row_def using True by simp
    also have "\<dots> = Inr (d1\<lparr>sessions := map (renamed sid ''user'' c) (sessions d1)\<rparr>)"
      unfolding sql_update_sessions_def using cols1 by (simp only: option.case renamed_user)
    finally show ?thesis using True by (simp add: d1_def)
  next
    case False
    have "add_message dumps now sid r c u d = Inr d1"
      unfolding add_message_def Let_def d1_def inserted_row_def using False by simp
    then show ?thesis using False by (simp add: d1_def renamed_other)
  qed
qed


lemma renamed_id: "s_id (renamed sid r c s) = s_id s"
  by (simp add: renamed_def)

lemma find_map_id:
  "(\<And>s. s_id (f s) = s_id s) \<Longrightarrow>
   find (\<lambda>s. s_id s = sid) (map f ss) = map_option f (find (\<lambda>s. s_id s = sid) ss)"
  by (induction ss) auto

lemma default_title_length: "length ''New Inspection'' = 14"
  by simp

lemma truncated_length: "length c > 30 \<Longrightarrow> length (take 30 c @ ''...'') = 33"
  by simp

lemma long_not_default: "length c > 30 \<Longrightarrow> c \<noteq> ''New Inspection''"
proof
  assume a: "length c > 30" and "c = ''New Inspection''"
  then have "length c = 14" by (simp only: default_title_length)
  with a show False by linarith
qed

lemma trunc_not_default: "length c > 30 \<Longrightarrow> take 30 c @ ''...'' \<noteq> ''New Inspection''"
proof
  assume a: "length c > 30" and "take 30 c @ ''...'' = ''New Inspection''"
  then have "length (take 30 c @ ''...'') = 14" by (simp only: default_title_length)
  with truncated_length [OF a] show False by linarith
qed

lemma auto_title_default: "auto_title c = ''New Inspection'' \<longleftrightarrow> c = ''New Inspection''"
proof (cases "length c > 30")
  case True
  then have "auto_title c = take 30 c @ ''...''" unfolding auto_title_def by (rule if_P)
  with long_not_default [OF True] trunc_not_default [OF True] show ?thesis
    by (simp only: simp_thms)
next
  case False
  then have "auto_title c = c" unfolding auto_title_def by (rule if_not_P)
  then show ?thesis by (simp only:)
qed

lemma get_session_meta_ok:
  "schema_ok d \<Longrightarrow> get_session_meta sid d = Inr (find (\<lambda>s. s_id s = sid) (sessions d))"
proof -
  assume "schema_ok d"
  then have "missing_column [''id''] d = None"
    by (rule schema_ok_columns) (simp add: schema_columns_def)
  then show ?thesis by (simp add: get_session_meta_def)
qed

lemma schema_ok_cong: "session_columns d' = session_columns d \<Longrightarrow> schema_ok d' = schema_ok d"
  by (simp add: schema_ok_def missing_column_def)

lemma find_id: "find (\<lambda>s. s_id s = sid) ss = Some s \<Longrightarrow> s_id s = sid"
  by (induction ss) (auto split: if_splits)

lemma filter_id_distinct:
  "distinct (map s_id ss) \<Longrightarrow> x \<in> set (map s_id ss) \<Longrightarrow> length (filter (\<lambda>s. s_id s = x) ss) = 1"
  by (induction ss) (auto simp: filter_empty_conv image_iff)

subsection \<open>Row ids, ordering and the history loop\<close>

lemma fold_max_ge_init: "(a::int) \<le> fold max xs a"
  by (induction xs arbitrary: a) (auto intro: order_trans [OF max.cobounded2])

lemma fold_max_ge_elem: "x \<in> set xs \<Longrightarrow> (x::int) \<le> fold max xs a"
proof (induction xs arbitrary: a)
  case Nil
  then show ?case by simp
next
  case (Cons y ys)
  show ?case
  proof (cases "x = y")
    case True
    have "x \<le> max y a" using True by simp
    also have "\<dots> \<le> fold max ys (max y a)" by (rule fold_max_ge_init)
    finally show ?thesis by simp
  next
    case False
    with Cons.prems have "x \<in> set ys" by simp
    then show ?thesis by (simp add: Cons.IH)
  qed
qed

lemma next_rowid_gt: "m \<in> set (messages d) \<Longrightarrow> m_id m < next_rowid d"
proof -
  assume "m \<in> set (messages d)"
  then have "m_id m \<in> set (map m_id (messages d))" by simp
  then have "m_id m \<le> fold max (map m_id (messages d)) (max 0 (sqlite_sequence d))"
    by (rule fold_max_ge_elem)
  then show ?thesis by (simp add: next_rowid_def)
qed

lemma insort_key_snoc:
  "f x \<le> f y \<Longrightarrow> insort_key f x (zs @ [y]) = insort_key f x zs @ [y]"
  by (induction zs) auto

lemma foldr_insort_snoc:
  "\<forall>x \<in> set xs. f x \<le> f y \<Longrightarrow>
   foldr (insort_key f) xs (ys @ [y]) = foldr (insort_key f) xs ys @ [y]"
  by (induction xs) (auto simp: insort_key_snoc)

lemma sort_key_snoc:
  "\<forall>x \<in> set xs. f x \<le> f y \<Longrightarrow> sort_key f (xs @ [y]) = sort_key f xs @ [y]"
  using foldr_insort_snoc [of xs f y "[]"] by (simp add: sort_key_def)

lemma select_messages_append:
  assumes "messages d1 = messages d @ [row]" and "m_id row = next_rowid d"
  shows "select_messages sid d1 =
           (if m_session_id row = sid then select_messages sid d @ [row] else select_messages sid d)"
proof (cases "m_session_id row = sid")
  case True
  have "\<forall>x \<in> set (filter (\<lambda>m. m_session_id m = sid) (messages d)). m_id x \<le> m_id row"
    using next_rowid_gt [of _ d] assms(2) by (auto intro: less_imp_le)
  then show ?thesis using True assms(1) by (simp add: select_messages_def sort_key_snoc)
next
  case False
  then show ?thesis using assms(1) by (simp add: select_messages_def)
qed

lemma history_loop_snoc:
  "history_loop loads (rows @ [r]) acc =
     (case history_loop loads rows acc of
        Inl e \<Rightarrow> Inl e
      | Inr h \<Rightarrow> (case row_to_msg loads r of Inl e \<Rightarrow> Inl e | Inr m \<Rightarrow> Inr (h @ [m])))"
  by (induction rows arbitrary: acc) (auto split: sum.splits)

lemma row_to_msg_inserted:
  assumes "codec_ok dumps loads u"
  shows "row_to_msg loads (inserted_row dumps now sid r c u d) = Inr (stored_msg r c u)"
  using assms
  by (auto simp: row_to_msg_def inserted_row_def stored_msg_def codec_ok_def truthy_text_def
      truthy_usage_def split: option.splits)

lemma add_message_history:
  assumes "schema_ok d" and "codec_ok dumps loads u"
    and "get_session_history loads sid d = Inr h"
  shows "\<exists>d1. add_message dumps now sid' r c u d = Inr d1
           \<and> schema_ok d1
           \<and> messages d1 = messages d @ [inserted_row dumps now sid' r c u d]
           \<and> get_session_history loads sid d1 =
               Inr (if sid' = sid then h @ [stored_msg r c u] else h)"
proof -
  let ?row = "inserted_row dumps now sid' r c u d"
  obtain d1 where d1: "add_message dumps now sid' r c u d = Inr d1"
      "messages d1 = messages d @ [?row]"
      "session_columns d1 = session_columns d"
    using add_message_ok [OF assms(1)] by blast
  have ok1: "schema_ok d1" using assms(1) by (simp only: schema_ok_cong [OF d1(3)])
  have sel: "select_messages sid d1 =
           (if sid' = sid then select_messages sid d @ [?row] else select_messages sid d)"
    using select_messages_append [OF d1(2), of sid] by (simp add: inserted_row_def)
  have "get_session_history loads sid d1 = Inr (if sid' = sid then h @ [stored_msg r c u] else h)"
    using assms(3) sel
    by (simp add: get_session_history_def history_loop_snoc row_to_msg_inserted [OF assms(2)])
  with d1(1,2) ok1 show ?thesis by blast
qed

subsection \<open>The session listing\<close>

lemma join_rows_fst:
  "p \<in> set (case filter (\<lambda>m. m_session_id m = s_id x) ms of
                [] \<Rightarrow> [(x, None)]
              | m # ms' \<Rightarrow> map (\<lambda>m'. (x, Some m')) (m # ms')) \<Longrightarrow> fst p = x"
  by (cases "filter (\<lambda>m. m_session_id m = s_id x) ms") auto

lemma join_rows_set:
  "(s, mo) \<in> set (case filter (\<lambda>m. m_session_id m = s_id s) ms of
                [] \<Rightarrow> [(s, None)]
              | m # ms' \<Rightarrow> map (\<lambda>m'. (s, Some m')) (m # ms')) \<longleftrightarrow>
     (case mo of
        None \<Rightarrow> \<not> (\<exists>m \<in> set ms. m_session_id m = s_id s)
      | Some m \<Rightarrow> m \<in> set ms \<and> m_session_id m = s_id s)"
proof (cases "filter (\<lambda>m. m_session_id m = s_id s) ms")
  case Nil
  then have "\<not> (\<exists>m \<in> set ms. m_session_id m = s_id s)"
    by (auto simp: filter_empty_conv)
  with Nil show ?thesis by (auto split: option.splits)
next
  case (Cons m ms')
  have mem: "\<And>x. x \<in> set (m # ms') \<longleftrightarrow> x \<in> set ms \<and> m_session_id x = s_id s"
    unfolding Cons [symmetric] by simp
  have ex: "\<exists>m \<in> set ms. m_session_id m = s_id s" using mem [of m] by auto
  show ?thesis unfolding Cons list.case using mem ex
    by (cases mo) auto
qed

lemma left_join_set:
  "p \<in> set (left_join ss ms) \<longleftrightarrow>
     fst p \<in> set ss \<and>
     (case snd p of
        None \<Rightarrow> \<not> (\<exists>m \<in> set ms. m_session_id m = s_id (fst p))
      | Some m \<Rightarrow> m \<in> set ms \<and> m_session_id m = s_id (fst p))"
proof (cases p)
  case (Pair s mo)
  let ?g = "\<lambda>x. case filter (\<lambda>m. m_session_id m = s_id x) ms of
                [] \<Rightarrow> [(x, None)]
              | m # ms' \<Rightarrow> map (\<lambda>m'. (x, Some m')) (m # ms')"
  have "(s, mo) \<in> set (left_join ss ms) \<longleftrightarrow> (\<exists>x \<in> set ss. (s, mo) \<in> set (?g x))"
    by (simp add: left_join_def)
  also have "\<dots> \<longleftrightarrow> s \<in> set ss \<and> (s, mo) \<in> set (?g s)"
    using join_rows_fst [of "(s, mo)" _ ms] by auto
  finally show ?thesis unfolding Pair by (cases mo) (simp_all add: join_rows_set)
qed

lemma listed_sessions_set:
  "set (map fst (filter listed (left_join ss ms))) =
     {s \<in> set ss. (\<exists>m \<in> set ms. m_session_id m = s_id s) \<or> s_image_path s \<noteq> None \<or>
                   (\<exists>t. s_title s = Some t \<and> t \<noteq> ''New Inspection'')}"
proof (intro set_eqI iffI)
  fix s
  assume "s \<in> set (map fst (filter listed (left_join ss ms)))"
  then obtain mo where p: "(s, mo) \<in> set (left_join ss ms)" and l: "listed (s, mo)"
    by auto
  from p have s: "s \<in> set ss" by (simp add: left_join_set)
  show "s \<in> {s \<in> set ss. (\<exists>m \<in> set ms. m_session_id m = s_id s) \<or> s_image_path s \<noteq> None \<or>
                   (\<exists>t. s_title s = Some t \<and> t \<noteq> ''New Inspection'')}"
  proof (cases mo)
    case None
    with l s show ?thesis by (auto simp: listed_def split: option.splits)
  next
    case (Some m)
    with p have "m \<in> set ms \<and> m_session_id m = s_id s" by (simp add: left_join_set)
    with s show ?thesis by auto
  qed
next
  fix s
  assume a: "s \<in> {s \<in> set ss. (\<exists>m \<in> set ms. m_session_id m = s_id s) \<or> s_image_path s \<noteq> None \<or>
                   (\<exists>t. s_title s = Some t \<and> t \<noteq> ''New Inspection'')}"
  then have s: "s \<in> set ss" by simp
  show "s \<in> set (map fst (filter listed (left_join ss ms)))"
  proof (cases "\<exists>m \<in> set ms. m_session_id m = s_id s")
    case True
    then obtain m where m: "m \<in> set ms" "m_session_id m = s_id s" by blast
    then have "(s, Some m) \<in> set (left_join ss ms)" using s by (simp add: left_join_set)
    moreover have "listed (s, Some m)" by (simp add: listed_def)
    ultimately have "(s, Some m) \<in> set (filter listed (left_join ss ms))" by simp
    then show ?thesis by force
  next
    case False
    then have p: "(s, None) \<in> set (left_join ss ms)" using s by (simp add: left_join_set)
    from a False have "listed (s, None)" by (auto simp: listed_def)
    with p have "(s, None) \<in> set (filter listed (left_join ss ms))" by simp
    then show ?thesis by force
  qed
qed

lemma order_by_created_at_desc_sorted:
  "sorted_wrt (\<lambda>a b. s_created_at b \<le> s_created_at a) (order_by_created_at_desc ss)"
proof -
  have "sorted (map (\<lambda>s. - int (s_created_at s)) (order_by_created_at_desc ss))"
    unfolding order_by_created_at_desc_def by (rule sorted_sort_key)
  then show ?thesis by (simp add: sorted_map)
qed

subsection \<open>Sequences of operations\<close>

lemma history_cong:
  "messages d1 = messages d \<Longrightarrow> get_session_history loads sid d1 = get_session_history loads sid d"
  by (simp add: get_session_history_def select_messages_def)

lemma create_session_ok:
  assumes "schema_ok d"
  shows "\<exists>d1. create_session now sid t m d = Inr d1 \<and> messages d1 = messages d
           \<and> session_columns d1 = session_columns d"
proof -
  have "missing_column [''id'', ''title'', ''mode''] d = None"
    using assms by (rule schema_ok_columns) (simp add: schema_columns_def)
  then show ?thesis by (simp add: create_session_def)
qed

lemma update_session_mode_ok:
  assumes "schema_ok d"
  shows "\<exists>d1. update_session_mode sid m d = Inr d1 \<and> messages d1 = messages d
           \<and> session_columns d1 = session_columns d"
proof -
  have "missing_column [''mode'', ''id''] d = None"
    using assms by (rule schema_ok_columns) (simp add: schema_columns_def)
  then show ?thesis
    by (simp add: update_session_mode_def sql_update_mode_def sql_update_sessions_def)
qed

lemma update_session_image_ok:
  assumes "schema_ok d"
  shows "\<exists>d1. update_session_image sid p d = Inr d1 \<and> messages d1 = messages d
           \<and> session_columns d1 = session_columns d"
proof -
  have "missing_column [''image_path'', ''id''] d = None"
    using assms by (rule schema_ok_columns) (simp add: schema_columns_def)
  then show ?thesis
    by (simp add: update_session_image_def sql_update_sessions_def)
qed

lemma update_session_title_ok:
  assumes "schema_ok d"
  shows "\<exists>d1. update_session_title sid t d = Inr d1 \<and> messages d1 = messages d
           \<and> session_columns d1 = session_columns d"
proof -
  have "missing_column [''title'', ''id''] d = None"
    using assms by (rule schema_ok_columns) (simp add: schema_columns_def)
  then show ?thesis
    by (simp add: update_session_title_def sql_update_sessions_def)
qed

lemma distinct_map_insort_key:
  "distinct (map f (insort_key f x xs)) \<longleftrightarrow> f x \<notin> f ` set xs \<and> distinct (map f xs)"
  by (induction xs) (auto simp: set_insort_key)

lemma distinct_map_sort_key:
  "distinct (map f (sort_key f xs)) \<longleftrightarrow> distinct (map f xs)"
  by (induction xs) (simp_all add: sort_key_simps distinct_map_insort_key)

lemma select_messages_strict:
  assumes "distinct (map m_id (messages d))"
  shows "sorted_wrt (<) (map m_id (select_messages sid d))"
proof -
  let ?xs = "filter (\<lambda>m. m_session_id m = sid) (messages d)"
  have "distinct (map m_id ?xs)" using assms by (rule distinct_map_filter)
  then have "distinct (map m_id (sort_key m_id ?xs))" by (simp only: distinct_map_sort_key)
  moreover have "sorted (map m_id (sort_key m_id ?xs))" by (rule sorted_sort_key)
  ultimately show ?thesis unfolding select_messages_def by (simp only: strict_sorted_iff)
qed

lemma distinct_ids_append:
  assumes "distinct (map m_id (messages d))" and "messages d1 = messages d @ [row]"
    and "m_id row = next_rowid d"
  shows "distinct (map m_id (messages d1))"
proof -
  have "m_id row \<notin> m_id ` set (messages d)"
    using next_rowid_gt [of _ d] assms(3) by force
  then show ?thesis using assms(1,2) by simp
qed

lemma run_op_step:
  assumes "schema_ok d" and "distinct (map m_id (messages d))"
    and "get_session_history loads sid d = Inr h"
    and "codec_ok dumps loads (op_usage x)"
  shows "\<exists>d1. run_op dumps x d = Inr d1 \<and> schema_ok d1 \<and> distinct (map m_id (messages d1))
           \<and> get_session_history loads sid d1 = Inr (h @ appended sid [x])
           \<and> take (length (messages d)) (messages d1) = messages d"
proof (cases x)
  case (CreateSession now s t m)
  obtain d1 where d1: "create_session now s t m d = Inr d1" "messages d1 = messages d"
      "session_columns d1 = session_columns d"
    using create_session_ok [OF assms(1)] by blast
  have "schema_ok d1" using assms(1) by (simp only: schema_ok_cong [OF d1(3)])
  with d1 assms(2,3) CreateSession show ?thesis by (simp add: history_cong [OF d1(2)])
next
  case (UpdateSessionMode s m)
  obtain d1 where d1: "update_session_mode s m d = Inr d1" "messages d1 = messages d"
      "session_columns d1 = session_columns d"
    using update_session_mode_ok [OF assms(1)] by blast
  have "schema_ok d1" using assms(1) by (simp only: schema_ok_cong [OF d1(3)])
  with d1 assms(2,3) UpdateSessionMode show ?thesis by (simp add: history_cong [OF d1(2)])
next
  case (UpdateSessionImage s p)
  obtain d1 where d1: "update_session_image s p d = Inr d1" "messages d1 = messages d"
      "session_columns d1 = session_columns d"
    using update_session_image_ok [OF assms(1)] by blast
  have "schema_ok d1" using assms(1) by (simp only: schema_ok_cong [OF d1(3)])
  with d1 assms(2,3) UpdateSessionImage show ?thesis by (simp add: history_cong [OF d1(2)])
next
  case (UpdateSessionTitle s t)
  obtain d1 where d1: "update_session_title s t d = Inr d1" "messages d1 = messages d"
      "session_columns d1 = session_columns d"
    using update_session_title_ok [OF assms(1)] by blast
  have "schema_ok d1" using assms(1) by (simp only: schema_ok_cong [OF d1(3)])
  with d1 assms(2,3) UpdateSessionTitle show ?thesis by (simp add: history_cong [OF d1(2)])
next
  case (AddMessage now s r c u)
  have codec: "codec_ok dumps loads u" using assms(4) AddMessage by simp
  obtain d1 where d1: "add_message dumps now s r c u d = Inr d1" "schema_ok d1"
      "messages d1 = messages d @ [inserted_row dumps now s r c u d]"
      "get_session_history loads sid d1 = Inr (if s = sid then h @ [stored_msg r c u] else h)"
    using add_message_history [OF assms(1) codec assms(3)] by blast
  have "distinct (map m_id (messages d1))"
    using assms(2) d1(3) by (rule distinct_ids_append) (simp add: inserted_row_def)
  with d1 AddMessage show ?thesis by simp
qed

lemma appended_Cons: "appended sid (x # xs) = appended sid [x] @ appended sid xs"
  by (cases x) simp_all

section \<open>The claims\<close>

lemma sample_store_ok: "schema_ok sample_store"
  by (simp add: schema_ok_def missing_column_def sample_store_def schema_columns_def)

text \<open>
  C6. Calling \<open>create_session\<close> twice with the same id, on a store with the current
  schema whose session ids are unique (the primary key), raises no error, leaves
  exactly one session with that id, and the second call changes nothing: it
  returns the store the first call left, whatever title, mode and time it is given.
\<close>

theorem create_session_idempotent:
  assumes "schema_ok d" and "distinct (map s_id (sessions d))"
  shows "\<exists>d1. create_session now1 sid t1 md1 d = Inr d1
            \<and> create_session now2 sid t2 md2 d1 = Inr d1
            \<and> length (filter (\<lambda>s. s_id s = sid) (sessions d1)) = 1"
proof -
  have cols: "missing_column [''id'', ''title'', ''mode''] d = None"
    using assms(1) by (rule schema_ok_columns) (simp add: schema_columns_def)
  show ?thesis
  proof (cases "sid \<in> set (map s_id (sessions d))")
    case True
    then have "create_session now1 sid t1 md1 d = Inr d" "create_session now2 sid t2 md2 d = Inr d"
      using cols by (simp_all add: create_session_def)
    moreover have "length (filter (\<lambda>s. s_id s = sid) (sessions d)) = 1"
      using assms(2) True by (rule filter_id_distinct)
    ultimately show ?thesis by simp
  next
    case False
    define d1 where "d1 = d\<lparr>sessions := sessions d @
                  [\<lparr>s_id = sid, s_title = Some t1, s_image_path = None,
                    s_mode = Some md1, s_created_at = now1\<rparr>]\<rparr>"
    have 1: "create_session now1 sid t1 md1 d = Inr d1"
      using cols False by (simp add: create_session_def d1_def)
    have "missing_column [''id'', ''title'', ''mode''] d1 = None"
      using cols by (simp add: missing_column_def d1_def)
    then have 2: "create_session now2 sid t2 md2 d1 = Inr d1"
      by (simp add: create_session_def d1_def)
    have "filter (\<lambda>s. s_id s = sid) (sessions d) = []"
      using False by (auto simp: filter_empty_conv)
    then have 3: "length (filter (\<lambda>s. s_id s = sid) (sessions d1)) = 1"
      by (simp add: d1_def)
    from 1 2 3 show ?thesis by blast
  qed
qed

theorem create_session_idempotent_witness:
  "schema_ok sample_store \<and> distinct (map s_id (sessions sample_store))
   \<and> (\<exists>d1. create_session 7 ''s2'' ''New Inspection'' ''General Analysis'' sample_store = Inr d1
          \<and> create_session 9 ''s2'' ''Other'' ''Safety Audit'' d1 = Inr d1
          \<and> length (filter (\<lambda>s. s_id s = ''s2'') (sessions d1)) = 1)"
proof -
  have d: "distinct (map s_id (sessions sample_store))" by (simp add: sample_store_def)
  show ?thesis
    using sample_store_ok d create_session_idempotent [OF sample_store_ok d] by blast
qed

text \<open>
  C3 (amended). On a store with the current schema, for a session whose title is
  the default \<open>New Inspection\<close>, appending a user message succeeds and sets the
  title to the content, or to its first 30 characters followed by \<open>...\<close> when the
  content is longer than 30 characters. When that content is not itself
  \<open>New Inspection\<close>, a second user message succeeds and leaves the session row as
  it was.
\<close>

theorem auto_rename_once:
  assumes "schema_ok d"
    and "find (\<lambda>s. s_id s = sid) (sessions d) = Some s"
    and "s_title s = Some DEFAULT_TITLE"
  shows "\<exists>d1. add_message dumps now sid ''user'' c u d = Inr d1
           \<and> get_session_meta sid d1 =
               Inr (Some (s\<lparr>s_title := Some (if length c > 30 then take 30 c @ ''...'' else c)\<rparr>))
           \<and> (c \<noteq> DEFAULT_TITLE \<longrightarrow>
                (\<exists>d2. add_message dumps now' sid ''user'' c' u' d1 = Inr d2
                    \<and> get_session_meta sid d2 = get_session_meta sid d1))"
proof -
  let ?s1 = "s\<lparr>s_title := Some (auto_title c)\<rparr>"
  obtain d1 where d1: "add_message dumps now sid ''user'' c u d = Inr d1"
      "sessions d1 = map (renamed sid ''user'' c) (sessions d)"
      "session_columns d1 = session_columns d"
    using add_message_ok [OF assms(1)] by blast
  have ok1: "schema_ok d1" using assms(1) by (simp only: schema_ok_cong [OF d1(3)])
  have sid: "s_id s = sid" using assms(2) by (rule find_id)
  have r1: "renamed sid ''user'' c s = ?s1"
    using assms(3) sid by (simp add: renamed_def DEFAULT_TITLE_def)
  have f1: "find (\<lambda>s. s_id s = sid) (sessions d1) = Some ?s1"
    using assms(2) r1 by (simp add: d1(2) find_map_id renamed_id)
  have meta1: "get_session_meta sid d1 = Inr (Some ?s1)"
    by (simp only: get_session_meta_ok [OF ok1] f1)
  have second: "\<exists>d2. add_message dumps now' sid ''user'' c' u' d1 = Inr d2
                    \<and> get_session_meta sid d2 = get_session_meta sid d1" if ne: "c \<noteq> DEFAULT_TITLE"
  proof -
    obtain d2 where d2: "add_message dumps now' sid ''user'' c' u' d1 = Inr d2"
        "sessions d2 = map (renamed sid ''user'' c') (sessions d1)"
        "session_columns d2 = session_columns d1"
      using add_message_ok [OF ok1] by blast
    have ok2: "schema_ok d2" using ok1 by (simp only: schema_ok_cong [OF d2(3)])
    have "auto_title c \<noteq> ''New Inspection''"
      using ne unfolding DEFAULT_TITLE_def by (simp only: auto_title_default simp_thms)
    then have keep: "renamed sid ''user'' c' ?s1 = ?s1"
      by (simp add: renamed_def)
    have "find (\<lambda>s. s_id s = sid) (sessions d2) = Some ?s1"
      using f1 keep by (simp add: d2(2) find_map_id renamed_id)
    then have "get_session_meta sid d2 = get_session_meta sid d1"
      by (simp only: get_session_meta_ok [OF ok2] meta1)
    with d2(1) show ?thesis by blast
  qed
  show ?thesis
    using d1(1) meta1 second unfolding auto_title_def by blast
qed

theorem auto_rename_once_witness:
  "schema_ok sample_store
   \<and> find (\<lambda>s. s_id s = ''s1'') (sessions sample_store) = Some (hd (sessions sample_store))
   \<and> s_title (hd (sessions sample_store)) = Some DEFAULT_TITLE
   \<and> (\<exists>d1. add_message sample_dumps 2 ''s1'' ''user''
               ''Check the bearing for wear please, it squeaks loudly'' None sample_store = Inr d1
          \<and> get_session_meta ''s1'' d1 =
               Inr (Some ((hd (sessions sample_store))\<lparr>s_title := Some ''Check the bearing for wear ple...''\<rparr>))
          \<and> (\<exists>d2. add_message sample_dumps 3 ''s1'' ''user'' ''And the shaft?'' None d1 = Inr d2
                 \<and> get_session_meta ''s1'' d2 = get_session_meta ''s1'' d1))"
proof -
  let ?c = "''Check the bearing for wear please, it squeaks loudly''"
  have f: "find (\<lambda>s. s_id s = ''s1'') (sessions sample_store) = Some (hd (sessions sample_store))"
    by (simp add: sample_store_def)
  have t: "s_title (hd (sessions sample_store)) = Some DEFAULT_TITLE"
    by (simp add: sample_store_def DEFAULT_TITLE_def)
  have ne: "?c \<noteq> DEFAULT_TITLE" by (simp add: DEFAULT_TITLE_def)
  have long: "(if length ?c > 30 then take 30 ?c @ ''...'' else ?c) = ''Check the bearing for wear ple...''"
    by simp
  show ?thesis
    using sample_store_ok f t ne
      auto_rename_once [OF sample_store_ok f t, of sample_dumps 2 ?c None 3 "''And the shaft?''" None]
    unfolding long by blast
qed

text \<open>
  The claim as stated fails when the first user message is the text
  \<open>New Inspection\<close>: the title it sets is the default again, and the second user
  message renames the session.
\<close>

theorem auto_rename_twice_counterexample:
  "(case add_message sample_dumps 2 ''s1'' ''user'' ''New Inspection'' None sample_store of
      Inl e \<Rightarrow> []
    | Inr d1 \<Rightarrow>
        (case add_message sample_dumps 3 ''s1'' ''user'' ''hello'' None d1 of
           Inl e \<Rightarrow> []
         | Inr d2 \<Rightarrow> [map s_title (sessions d1), map s_title (sessions d2)]))
   = [[Some ''New Inspection''], [Some ''hello'']]"
  by (simp add: add_message_def sql_update_sessions_def missing_column_def sample_store_def
      schema_columns_def truthy_usage_def next_rowid_def auto_title_def Let_def)

lemma sample_codec_ok: "codec_ok sample_dumps sample_loads (Some sample_usage)"
  by (simp add: codec_ok_def sample_dumps_def sample_loads_def sample_text_def)

lemma sample_history_empty: "get_session_history sample_loads ''s1'' sample_store = Inr []"
  by (simp add: get_session_history_def select_messages_def sample_store_def)

text \<open>
  C4. On a store with the current schema, a message appended with a non-empty
  usage mapping \<open>u\<close> comes back from \<open>get_session_history\<close> as the last message of
  its session with \<open>usage\<close> equal to \<open>u\<close>, hence equal in every field. The JSON
  library is a parameter: the theorem asks that \<open>json.dumps\<close> gives a non-empty
  text for \<open>u\<close> and that \<open>json.loads\<close> reads \<open>u\<close> back from it, and that the
  history was readable before.
\<close>

theorem usage_round_trip:
  assumes "schema_ok d" and "u \<noteq> []"
    and "dumps u \<noteq> []" and "loads (dumps u) = Inr u"
    and "get_session_history loads sid d = Inr h"
  shows "\<exists>d1. add_message dumps now sid r c (Some u) d = Inr d1
           \<and> get_session_history loads sid d1 =
               Inr (h @ [\<lparr>msg_role = r, msg_content = c, msg_usage = Some u\<rparr>])"
proof -
  have codec: "codec_ok dumps loads (Some u)"
    using assms(3,4) by (simp add: codec_ok_def)
  have msg: "stored_msg r c (Some u) = \<lparr>msg_role = r, msg_content = c, msg_usage = Some u\<rparr>"
    using assms(2) by (simp add: stored_msg_def truthy_usage_def)
  from add_message_history [OF assms(1) codec assms(5), of now sid r c]
  show ?thesis by (auto simp: msg)
qed

theorem usage_round_trip_witness:
  "schema_ok sample_store \<and> sample_usage \<noteq> [] \<and> sample_dumps sample_usage \<noteq> []
   \<and> sample_loads (sample_dumps sample_usage) = Inr sample_usage
   \<and> get_session_history sample_loads ''s1'' sample_store = Inr []
   \<and> (\<exists>d1. add_message sample_dumps 4 ''s1'' ''assistant'' ''Bearing is worn.''
               (Some sample_usage) sample_store = Inr d1
          \<and> get_session_history sample_loads ''s1'' d1 =
               Inr [\<lparr>msg_role = ''assistant'', msg_content = ''Bearing is worn.'',
                     msg_usage = Some sample_usage\<rparr>])"
proof -
  have a: "sample_usage \<noteq> []" by (simp add: sample_usage_def)
  have b: "sample_dumps sample_usage \<noteq> []" by (simp add: sample_dumps_def sample_text_def)
  have c: "sample_loads (sample_dumps sample_usage) = Inr sample_usage"
    by (simp add: sample_dumps_def sample_loads_def)
  show ?thesis
    using sample_store_ok a b c sample_history_empty
      usage_round_trip [where dumps = sample_dumps and loads = sample_loads
        and u = sample_usage and d = sample_store and sid = "''s1''" and h = "[]"
        and now = 4 and r = "''assistant''" and c = "''Bearing is worn.''"]
    by simp
qed

text \<open>
  C10. On a store with the current schema, a message appended with usage \<open>None\<close>
  or the empty mapping is stored with \<open>usage_data\<close> \<open>NULL\<close>, and
  \<open>get_session_history\<close> gives it back as the last message of its session with
  no \<open>usage\<close> key.
\<close>

theorem falsy_usage_not_stored:
  assumes "schema_ok d" and "u = None \<or> u = Some []"
    and "get_session_history loads sid d = Inr h"
  shows "\<exists>d1. add_message dumps now sid r c u d = Inr d1
           \<and> m_usage_data (last (messages d1)) = None
           \<and> get_session_history loads sid d1 =
               Inr (h @ [\<lparr>msg_role = r, msg_content = c, msg_usage = None\<rparr>])"
proof -
  have falsy: "\<not> truthy_usage u" using assms(2) by (auto simp: truthy_usage_def)
  then have codec: "codec_ok dumps loads u" by (simp add: codec_ok_def)
  have msg: "stored_msg r c u = \<lparr>msg_role = r, msg_content = c, msg_usage = None\<rparr>"
    using falsy by (simp add: stored_msg_def)
  have row: "m_usage_data (inserted_row dumps now sid r c u d) = None"
    using falsy by (simp add: inserted_row_def)
  from add_message_history [OF assms(1) codec assms(3), of now sid r c]
  show ?thesis by (auto simp: msg row)
qed

theorem falsy_usage_not_stored_witness:
  "schema_ok sample_store \<and> get_session_history sample_loads ''s1'' sample_store = Inr []
   \<and> (\<exists>d1. add_message sample_dumps 4 ''s1'' ''assistant'' ''ok'' (Some []) sample_store = Inr d1
          \<and> m_usage_data (last (messages d1)) = None
          \<and> get_session_history sample_loads ''s1'' d1 =
               Inr [\<lparr>msg_role = ''assistant'', msg_content = ''ok'', msg_usage = None\<rparr>])"
proof -
  have a: "(Some [] :: usage_dict option) = None \<or> (Some [] :: usage_dict option) = Some []" by simp
  show ?thesis
    using sample_store_ok sample_history_empty
      falsy_usage_not_stored [where dumps = sample_dumps and loads = sample_loads
        and u = "Some []" and d = sample_store and sid = "''s1''" and h = "[]"
        and now = 4 and r = "''assistant''" and c = "''ok''"]
    by simp
qed

lemma listing_store_ok: "schema_ok listing_store"
  by (simp add: schema_ok_def missing_column_def listing_store_def schema_columns_def)

lemma listing_eval:
  "get_all_sessions listing_store =
     Inr [\<lparr>s_id = ''c'', s_title = Some ''New Inspection'',
           s_image_path = Some ''frontend/assets/c.png'',
           s_mode = Some ''Safety Audit'', s_created_at = 30\<rparr>,
          \<lparr>s_id = ''b'', s_title = Some ''New Inspection'', s_image_path = None,
           s_mode = Some ''General Analysis'', s_created_at = 20\<rparr>]"
  by (simp add: get_all_sessions_def missing_column_def listing_store_def schema_columns_def
      left_join_def listed_def order_by_created_at_desc_def)

text \<open>
  C9. On a store with the current schema \<open>get_all_sessions\<close> returns a list sorted
  by \<open>created_at\<close>, newest first; every session in it is a row of \<open>sessions\<close> that
  has a message, or an image path, or a title other than the default; so no
  returned session has the default title, no image path and no message.
\<close>

theorem get_all_sessions_filtered:
  assumes "schema_ok d"
  shows "\<exists>ss. get_all_sessions d = Inr ss
           \<and> sorted_wrt (\<lambda>a b. s_created_at b \<le> s_created_at a) ss
           \<and> (\<forall>s \<in> set ss. s \<in> set (sessions d) \<and>
                 (has_message d s \<or> s_image_path s \<noteq> None \<or> s_title s \<noteq> Some DEFAULT_TITLE))
           \<and> \<not> (\<exists>s \<in> set ss. s_title s = Some DEFAULT_TITLE \<and> s_image_path s = None
                                 \<and> \<not> has_message d s)"
proof -
  let ?ss = "order_by_created_at_desc
               (remdups (map fst (filter listed (left_join (sessions d) (messages d)))))"
  have "missing_column [''image_path'', ''title'', ''id'', ''created_at''] d = None"
    using assms by (rule schema_ok_columns) (simp add: schema_columns_def)
  then have res: "get_all_sessions d = Inr ?ss" by (simp add: get_all_sessions_def)
  have set: "set ?ss = {s \<in> set (sessions d). has_message d s \<or> s_image_path s \<noteq> None \<or>
                   (\<exists>t. s_title s = Some t \<and> t \<noteq> ''New Inspection'')}"
    unfolding order_by_created_at_desc_def has_message_def
    using listed_sessions_set [of "sessions d" "messages d"] by simp
  have each: "\<forall>s \<in> set ?ss. s \<in> set (sessions d) \<and>
                 (has_message d s \<or> s_image_path s \<noteq> None \<or> s_title s \<noteq> Some DEFAULT_TITLE)"
    unfolding set DEFAULT_TITLE_def by auto
  then have none: "\<not> (\<exists>s \<in> set ?ss. s_title s = Some DEFAULT_TITLE \<and> s_image_path s = None
                                 \<and> \<not> has_message d s)"
    by blast
  from res order_by_created_at_desc_sorted each none show ?thesis by blast
qed

theorem get_all_sessions_filtered_witness:
  "schema_ok listing_store
   \<and> (\<exists>ss. get_all_sessions listing_store = Inr ss
          \<and> map s_id ss = [''c'', ''b'']
          \<and> sorted_wrt (\<lambda>a b. s_created_at b \<le> s_created_at a) ss
          \<and> \<not> (\<exists>s \<in> set ss. s_title s = Some DEFAULT_TITLE \<and> s_image_path s = None
                                \<and> \<not> has_message listing_store s))"
proof -
  obtain ss where ss: "get_all_sessions listing_store = Inr ss"
      "sorted_wrt (\<lambda>a b. s_created_at b \<le> s_created_at a) ss"
      "\<not> (\<exists>s \<in> set ss. s_title s = Some DEFAULT_TITLE \<and> s_image_path s = None
                                \<and> \<not> has_message listing_store s)"
    using get_all_sessions_filtered [OF listing_store_ok] by blast
  have ids: "map s_id ss = [''c'', ''b'']" using ss(1) unfolding listing_eval by auto
  show ?thesis
  proof (intro conjI exI)
    show "schema_ok listing_store" by (rule listing_store_ok)
    show "get_all_sessions listing_store = Inr ss" by (rule ss(1))
    show "map s_id ss = [''c'', ''b'']" by (rule ids)
    show "sorted_wrt (\<lambda>a b. s_created_at b \<le> s_created_at a) ss" by (rule ss(2))
    show "\<not> (\<exists>s \<in> set ss. s_title s = Some DEFAULT_TITLE \<and> s_image_path s = None
                                \<and> \<not> has_message listing_store s)" by (rule ss(3))
  qed
qed

lemma update_session_mode_total: "\<exists>d'. update_session_mode sid mode d = Inr d'"
  by (auto simp: update_session_mode_def sql_update_mode_def sql_update_sessions_def
      sql_add_column_mode_def split: sum.splits exc.splits option.splits)

lemma update_session_mode_adds_column:
  assumes "''mode'' \<notin> set (session_columns d)"
  shows "\<exists>d'. update_session_mode sid mode d = Inr d'
           \<and> session_columns d' = session_columns d @ [''mode'']
           \<and> sessions d' =
               (if ''id'' \<in> set (session_columns d)
                then map (\<lambda>s. if s_id s = sid then s\<lparr>s_mode := Some mode\<rparr>
                               else s\<lparr>s_mode := Some DEFAULT_MODE\<rparr>) (sessions d)
                else map (\<lambda>s. s\<lparr>s_mode := Some DEFAULT_MODE\<rparr>) (sessions d))
           \<and> messages d' = messages d"
proof -
  have first: "sql_update_mode mode sid d = Inl (OperationalError ''no such column: mode'')"
    using assms by (simp add: sql_update_mode_def sql_update_sessions_def missing_column_def)
  define d1 where "d1 = d\<lparr>session_columns := session_columns d @ [''mode''],
                  sessions := map (\<lambda>s. s\<lparr>s_mode := Some DEFAULT_MODE\<rparr>) (sessions d)\<rparr>"
  have alter: "sql_add_column_mode d = Inr d1"
    using assms by (simp add: sql_add_column_mode_def d1_def)
  show ?thesis
  proof (cases "''id'' \<in> set (session_columns d)")
    case True
    then have "missing_column [''mode'', ''id''] d1 = None"
      by (simp add: missing_column_def d1_def)
    then have "sql_update_mode mode sid d1 =
        Inr (d1\<lparr>sessions := map (\<lambda>s. if s_id s = sid then s\<lparr>s_mode := Some mode\<rparr> else s) (sessions d1)\<rparr>)"
      by (simp add: sql_update_mode_def sql_update_sessions_def)
    then show ?thesis using first alter True
      by (simp add: update_session_mode_def d1_def comp_def if_distrib cong: if_cong)
  next
    case False
    then have "missing_column [''mode'', ''id''] d1 = Some ''id''"
      by (simp add: missing_column_def d1_def)
    then have "sql_update_mode mode sid d1 = Inl (OperationalError ''no such column: id'')"
      by (simp add: sql_update_mode_def sql_update_sessions_def)
    then show ?thesis using first alter False
      by (simp add: update_session_mode_def d1_def)
  qed
qed

text \<open>
  C2 (amended). Only \<open>update_session_mode\<close> adds a missing column: when \<open>mode\<close> is
  absent it adds the column with its default and runs the update again (the
  update takes effect when the relation has the \<open>id\<close> column), and it never
  raises. \<open>update_session_image\<close>, when \<open>image_path\<close> is absent, drops the error and
  leaves the store as it was: no column is added and nothing is retried.
  \<open>update_session_title\<close>, when \<open>title\<close> is absent, raises \<open>OperationalError\<close>.
\<close>

theorem schema_evolution_per_operation:
  "(''mode'' \<notin> set (session_columns d) \<longrightarrow>
      (\<exists>d'. update_session_mode sid mode d = Inr d'
          \<and> session_columns d' = session_columns d @ [''mode'']
          \<and> (''id'' \<in> set (session_columns d) \<longrightarrow>
               sessions d' = map (\<lambda>s. if s_id s = sid then s\<lparr>s_mode := Some mode\<rparr>
                                       else s\<lparr>s_mode := Some DEFAULT_MODE\<rparr>) (sessions d))))
   \<and> (\<exists>d'. update_session_mode sid mode d = Inr d')
   \<and> (''image_path'' \<notin> set (session_columns d) \<longrightarrow> update_session_image sid path d = Inr d)
   \<and> (''title'' \<notin> set (session_columns d) \<longrightarrow>
        update_session_title sid t d = Inl (OperationalError ''no such column: title''))"
proof (intro conjI impI)
  assume a: "''mode'' \<notin> set (session_columns d)"
  from update_session_mode_adds_column [OF a, of sid mode]
  show "\<exists>d'. update_session_mode sid mode d = Inr d'
          \<and> session_columns d' = session_columns d @ [''mode'']
          \<and> (''id'' \<in> set (session_columns d) \<longrightarrow>
               sessions d' = map (\<lambda>s. if s_id s = sid then s\<lparr>s_mode := Some mode\<rparr>
                                       else s\<lparr>s_mode := Some DEFAULT_MODE\<rparr>) (sessions d))"
    by auto
next
  show "\<exists>d'. update_session_mode sid mode d = Inr d'" by (rule update_session_mode_total)
next
  assume "''image_path'' \<notin> set (session_columns d)"
  then show "update_session_image sid path d = Inr d"
    by (simp add: update_session_image_def sql_update_sessions_def missing_column_def)
next
  assume "''title'' \<notin> set (session_columns d)"
  then show "update_session_title sid t d = Inl (OperationalError ''no such column: title'')"
    by (simp add: update_session_title_def sql_update_sessions_def missing_column_def)
qed

theorem schema_evolution_per_operation_witness:
  "''mode'' \<notin> set (session_columns legacy_store)
   \<and> ''id'' \<in> set (session_columns legacy_store)
   \<and> ''image_path'' \<notin> set (session_columns legacy_store)
   \<and> ''title'' \<notin> set (session_columns legacy_store)
   \<and> (\<exists>d'. update_session_mode ''s1'' ''Safety Audit'' legacy_store = Inr d'
          \<and> session_columns d' = [''id'', ''created_at'', ''mode'']
          \<and> map s_mode (sessions d') = [Some ''Safety Audit''])
   \<and> update_session_image ''s1'' ''frontend/assets/s1.png'' legacy_store = Inr legacy_store
   \<and> update_session_title ''s1'' ''Pump housing'' legacy_store =
       Inl (OperationalError ''no such column: title'')"
proof -
  have cols: "session_columns legacy_store = [''id'', ''created_at'']"
    by (simp add: legacy_store_def)
  have rows: "map s_id (sessions legacy_store) = [''s1'']" by (simp add: legacy_store_def)
  have rows': "sessions legacy_store = [hd (sessions legacy_store)]" by (simp add: legacy_store_def)
  have sid: "s_id (hd (sessions legacy_store)) = ''s1''" by (simp add: legacy_store_def)
  from schema_evolution_per_operation [of legacy_store "''s1''" "''Safety Audit''"
      "''frontend/assets/s1.png''" "''Pump housing''"]
  show ?thesis unfolding cols by (subst (asm) rows', subst (asm) rows') (auto simp: sid)
qed

text \<open>
  The claim as stated fails on a store of an older version: \<open>update_session_image\<close>
  returns it unchanged, still without the column, and \<open>update_session_title\<close>
  raises.
\<close>

theorem schema_evolution_counterexample:
  "update_session_image ''s1'' ''frontend/assets/s1.png'' legacy_store = Inr legacy_store
   \<and> ''image_path'' \<notin> set (session_columns legacy_store)
   \<and> update_session_title ''s1'' ''Pump housing'' legacy_store =
       Inl (OperationalError ''no such column: title'')
   \<and> ''title'' \<notin> set (session_columns legacy_store)"
  by (simp add: update_session_image_def update_session_title_def sql_update_sessions_def
      missing_column_def legacy_store_def)

lemma sample_ops_codec: "list_all (\<lambda>x. codec_ok sample_dumps sample_loads (op_usage x)) sample_ops"
  using sample_codec_ok by (auto simp: sample_ops_def codec_ok_def truthy_usage_def)

text \<open>
  C7. Start from a store with the current schema and unique message ids whose
  history for the session is readable. Any sequence of store operations
  (\<open>add_message\<close> for any session, interleaved with \<open>create_session\<close> and the
  three updates) runs without an exception; afterwards \<open>get_session_history\<close>
  returns the earlier history followed by exactly the messages appended to the
  session, in the order of the appends; the rows it reads have strictly
  increasing ids; and the rows that were in \<open>messages\<close> before are still its first
  rows, unchanged. The JSON library is asked to read back the usage of each
  appended message.
\<close>

theorem history_in_insertion_order:
  assumes "schema_ok d" and "distinct (map m_id (messages d))"
    and "get_session_history loads sid d = Inr h"
    and "list_all (\<lambda>x. codec_ok dumps loads (op_usage x)) ops"
  shows "\<exists>d'. run_ops dumps ops d = Inr d'
           \<and> get_session_history loads sid d' = Inr (h @ appended sid ops)
           \<and> sorted_wrt (<) (map m_id (select_messages sid d'))
           \<and> take (length (messages d)) (messages d') = messages d"
  using assms
proof (induction ops arbitrary: d h)
  case Nil
  then show ?case by (simp add: select_messages_strict)
next
  case (Cons x xs)
  from Cons.prems(4) have cx: "codec_ok dumps loads (op_usage x)"
    and cxs: "list_all (\<lambda>x. codec_ok dumps loads (op_usage x)) xs" by simp_all
  obtain d1 where d1: "run_op dumps x d = Inr d1" "schema_ok d1"
      "distinct (map m_id (messages d1))"
      "get_session_history loads sid d1 = Inr (h @ appended sid [x])"
      "take (length (messages d)) (messages d1) = messages d"
    using run_op_step [OF Cons.prems(1,2,3) cx] by blast
  obtain d' where d': "run_ops dumps xs d1 = Inr d'"
      "get_session_history loads sid d' = Inr ((h @ appended sid [x]) @ appended sid xs)"
      "sorted_wrt (<) (map m_id (select_messages sid d'))"
      "take (length (messages d1)) (messages d') = messages d1"
    using Cons.IH [OF d1(2,3,4) cxs] by blast
  have run: "run_ops dumps (x # xs) d = Inr d'" using d1(1) d'(1) by simp
  have hist: "get_session_history loads sid d' = Inr (h @ appended sid (x # xs))"
    using d'(2) appended_Cons [of sid x xs] by simp
  have le: "length (messages d) \<le> length (messages d1)"
    using arg_cong [OF d1(5), of length] by simp
  have "take (length (messages d)) (take (length (messages d1)) (messages d')) =
          take (length (messages d)) (messages d')"
    using le by (simp add: min_def)
  then have pre: "take (length (messages d)) (messages d') = messages d"
    using d1(5) d'(4) by simp
  from run hist d'(3) pre show ?case by blast
qed

theorem history_in_insertion_order_witness:
  "schema_ok sample_store \<and> distinct (map m_id (messages sample_store))
   \<and> get_session_history sample_loads ''s1'' sample_store = Inr []
   \<and> list_all (\<lambda>x. codec_ok sample_dumps sample_loads (op_usage x)) sample_ops
   \<and> (\<exists>d'. run_ops sample_dumps sample_ops sample_store = Inr d'
          \<and> get_session_history sample_loads ''s1'' d' =
               Inr [\<lparr>msg_role = ''user'', msg_content = ''Is the bearing worn?'', msg_usage = None\<rparr>,
                    \<lparr>msg_role = ''assistant'', msg_content = ''Bearing is worn.'',
                     msg_usage = Some sample_usage\<rparr>]
          \<and> sorted_wrt (<) (map m_id (select_messages ''s1'' d'))
          \<and> take (length (messages sample_store)) (messages d') = messages sample_store)"
proof -
  have dist: "distinct (map m_id (messages sample_store))" by (simp add: sample_store_def)
  have app: "appended ''s1'' sample_ops =
               [\<lparr>msg_role = ''user'', msg_content = ''Is the bearing worn?'', msg_usage = None\<rparr>,
                \<lparr>msg_role = ''assistant'', msg_content = ''Bearing is worn.'',
                 msg_usage = Some sample_usage\<rparr>]"
    by (simp add: sample_ops_def stored_msg_def truthy_usage_def sample_usage_def)
  from history_in_insertion_order [OF sample_store_ok dist sample_history_empty sample_ops_codec]
  have "\<exists>d'. run_ops sample_dumps sample_ops sample_store = Inr d'
          \<and> get_session_history sample_loads ''s1'' d' = Inr ([] @ appended ''s1'' sample_ops)
          \<and> sorted_wrt (<) (map m_id (select_messages ''s1'' d'))
          \<and> take (length (messages sample_store)) (messages d') = messages sample_store" .
  then show ?thesis
    unfolding app append_Nil
    using sample_store_ok dist sample_history_empty sample_ops_codec by blast
qed

subsection \<open>The gateway client\<close>












lemma non_200_wrapped:
  assumes "post env (API_URL env) (headers env) (build_payload env q img hist sp) = Inr resp"
    and "status_code resp \<noteq> 200"
  shows "chat_with_industrial_ai env q img hist sp =
           Inl (RuntimeError (''Connection failed: API Error: '' @ body_text resp))"
  using assms by (simp add: chat_with_industrial_ai_def try_body_def Let_def)

lemma transport_failure_wrapped:
  assumes "post env (API_URL env) (headers env) (build_payload env q img hist sp) = Inl e"
  shows "chat_with_industrial_ai env q img hist sp =
           Inl (RuntimeError (''Connection failed: '' @ str_exc e))"
  using assms by (simp add: chat_with_industrial_ai_def try_body_def)

text \<open>
  C1. The code at a response with status 500 and body \<open>boom\<close>: the
  \<open>RuntimeError("API Error: boom")\<close> of step 8 is raised inside the \<open>try\<close>, so
  the call fails with \<open>RuntimeError("Connection failed: API Error: boom")\<close>, the
  very error a transport failure whose message is \<open>API Error: boom\<close> gives.
  The body is carried, but the kind is not distinct from the connection failure.
\<close>

theorem upstream_error_is_wrapped:
  "chat_with_industrial_ai (env_with t0 t1 (Inr error_response)) q img hist sp =
     Inl (RuntimeError ''Connection failed: API Error: boom'')
   \<and> chat_with_industrial_ai (env_with t0 t1 (Inl (LibraryError ''API Error: boom''))) q img hist sp =
     Inl (RuntimeError ''Connection failed: API Error: boom'')"
  by (simp add: chat_with_industrial_ai_def try_body_def env_with_def error_response_def Let_def)





subsection \<open>The orchestrator\<close>

text \<open>
  C8. On a store with the current schema: without an active image, submit only
  adds the warning toast; the store and the in-memory messages are unchanged.
  With an active image, the user message is stored first, whatever the gateway
  does afterwards: \<open>add_message\<close> appends to \<open>messages\<close> one row with the active
  session id, role \<open>user\<close> and the question as content, and the session's history
  gains that message; submit does not raise, and the rows so stored are still
  the first rows of \<open>messages\<close> at the end. When the gateway call fails (reading
  the image file included), the final store is the one the user message left:
  \<open>messages\<close> is the earlier relation followed by the user row, with no
  assistant row; the in-memory list has gained the user message only; and the
  failure is shown as an error notice.
\<close>

theorem submit_keeps_state_consistent:
  assumes "schema_ok (store a)"
  shows "(\<not> truthy_image active_image \<longrightarrow>
            submit env prompt active_image bi ur a =
              Inr (a\<lparr>ui := ui a @ [Toast ''ERR: NO VISUAL INPUT DETECTED'']\<rparr>))
       \<and> (truthy_image active_image \<longrightarrow>
            (\<exists>d1 a' row. add_message (json_dumps env) (now_user env) (active_session_id a) ''user''
                        prompt None (store a) = Inr d1
                 \<and> messages d1 = messages (store a) @ [row]
                 \<and> m_session_id row = active_session_id a \<and> m_role row = ''user''
                 \<and> m_content row = prompt \<and> m_usage_data row = None
                 \<and> (\<forall>loads h. get_session_history loads (active_session_id a) (store a) = Inr h \<longrightarrow>
                        get_session_history loads (active_session_id a) d1 =
                          Inr (h @ [\<lparr>msg_role = ''user'', msg_content = prompt, msg_usage = None\<rparr>]))
                 \<and> submit env prompt active_image bi ur a = Inr a'
                 \<and> take (length (messages d1)) (messages (store a')) = messages d1
                 \<and> (\<forall>e. gateway_call env prompt (the active_image)
                            (st_messages a @ [\<lparr>msg_role = ''user'', msg_content = prompt,
                                                msg_usage = None\<rparr>]) bi ur = Inl e \<longrightarrow>
                        a' = a\<lparr>store := d1,
                               st_messages := st_messages a @
                                 [\<lparr>msg_role = ''user'', msg_content = prompt, msg_usage = None\<rparr>],
                               ui := ui a @ [Markdown ''user'' prompt,
                                             ErrorBox (''SYSTEM FAILURE: '' @ str_exc e)]\<rparr>
                        \<and> messages (store a') = messages (store a) @ [row])))"
proof (intro conjI impI)
  assume "\<not> truthy_image active_image"
  then show "submit env prompt active_image bi ur a =
              Inr (a\<lparr>ui := ui a @ [Toast ''ERR: NO VISUAL INPUT DETECTED'']\<rparr>)"
    by (simp add: submit_def)
next
  assume img: "truthy_image active_image"
  let ?umsg = "\<lparr>msg_role = ''user'', msg_content = prompt, msg_usage = None\<rparr>"
  let ?msgs1 = "st_messages a @ [?umsg]"
  let ?sid = "active_session_id a"
  let ?row = "inserted_row (json_dumps env) (now_user env) ?sid ''user'' prompt None (store a)"
  obtain d1 where d1: "add_message (json_dumps env) (now_user env) ?sid ''user'' prompt None (store a) = Inr d1"
      "messages d1 = messages (store a) @ [?row]"
      "session_columns d1 = session_columns (store a)"
    using add_message_ok [OF assms] by blast
  have ok1: "schema_ok d1" using assms by (simp only: schema_ok_cong [OF d1(3)])
  have row: "m_session_id ?row = ?sid" "m_role ?row = ''user''" "m_content ?row = prompt"
      "m_usage_data ?row = None"
    by (simp_all add: inserted_row_def truthy_usage_def)
  have hist: "get_session_history loads ?sid d1 = Inr (h @ [?umsg])"
    if h: "get_session_history loads ?sid (store a) = Inr h" for loads h
  proof -
    have codec: "codec_ok (json_dumps env) loads None"
      by (simp add: codec_ok_def truthy_usage_def)
    obtain d1' where d1': "add_message (json_dumps env) (now_user env) ?sid ''user'' prompt None (store a) = Inr d1'"
        "get_session_history loads ?sid d1' =
           Inr (if ?sid = ?sid then h @ [stored_msg ''user'' prompt None] else h)"
      using add_message_history [OF assms codec h, of "now_user env" ?sid "''user''" prompt] by blast
    have "d1' = d1" using d1(1) d1'(1) by simp
    then show ?thesis using d1'(2) by (simp add: stored_msg_def truthy_usage_def)
  qed
  let ?a1 = "a\<lparr>store := d1, st_messages := ?msgs1, ui := ui a @ [Markdown ''user'' prompt]\<rparr>"
  have "\<exists>a'. submit env prompt active_image bi ur a = Inr a'
                 \<and> take (length (messages d1)) (messages (store a')) = messages d1
                 \<and> (\<forall>e. gateway_call env prompt (the active_image) ?msgs1 bi ur = Inl e \<longrightarrow>
                        a' = a\<lparr>store := d1, st_messages := ?msgs1,
                               ui := ui a @ [Markdown ''user'' prompt,
                                             ErrorBox (''SYSTEM FAILURE: '' @ str_exc e)]\<rparr>
                        \<and> messages (store a') = messages (store a) @ [?row])"
  proof (cases "gateway_call env prompt (the active_image) ?msgs1 bi ur")
    case (Inl e)
    have "submit env prompt active_image bi ur a = Inr (system_failure e ?a1)"
      using img d1(1) Inl by (simp add: submit_def Let_def)
    then show ?thesis using d1(2) Inl by (auto simp: system_failure_def)
  next
    case (Inr response)
    let ?a2 = "?a1\<lparr>ui := ui ?a1 @ [Markdown ''assistant'' (content response),
                                      Metrics (usage response)]\<rparr>"
    obtain d2 where d2: "add_message (json_dumps env) (now_assistant env) ?sid ''assistant''
                           (content response) (Some (model_dump (usage response))) d1 = Inr d2"
        "messages d2 = messages d1 @ [inserted_row (json_dumps env) (now_assistant env) ?sid
                           ''assistant'' (content response) (Some (model_dump (usage response))) d1]"
      using add_message_ok [OF ok1] by blast
    have "submit env prompt active_image bi ur a =
            Inr (?a2\<lparr>store := d2,
                     st_messages := ?msgs1 @ [\<lparr>msg_role = ''assistant'',
                                               msg_content = content response,
                                               msg_usage = Some (model_dump (usage response))\<rparr>]\<rparr>)"
      using img d1(1) Inr d2(1) by (simp add: submit_def Let_def)
    then show ?thesis using Inr d2(2) by auto
  qed
  then obtain a' where a': "submit env prompt active_image bi ur a = Inr a'"
      "take (length (messages d1)) (messages (store a')) = messages d1"
      "\<forall>e. gateway_call env prompt (the active_image) ?msgs1 bi ur = Inl e \<longrightarrow>
                        a' = a\<lparr>store := d1, st_messages := ?msgs1,
                               ui := ui a @ [Markdown ''user'' prompt,
                                             ErrorBox (''SYSTEM FAILURE: '' @ str_exc e)]\<rparr>
                        \<and> messages (store a') = messages (store a) @ [?row]"
    by blast
  show "\<exists>d1 a' row. add_message (json_dumps env) (now_user env) ?sid ''user'' prompt None (store a) = Inr d1
                 \<and> messages d1 = messages (store a) @ [row]
                 \<and> m_session_id row = ?sid \<and> m_role row = ''user''
                 \<and> m_content row = prompt \<and> m_usage_data row = None
                 \<and> (\<forall>loads h. get_session_history loads ?sid (store a) = Inr h \<longrightarrow>
                        get_session_history loads ?sid d1 = Inr (h @ [?umsg]))
                 \<and> submit env prompt active_image bi ur a = Inr a'
                 \<and> take (length (messages d1)) (messages (store a')) = messages d1
                 \<and> (\<forall>e. gateway_call env prompt (the active_image) ?msgs1 bi ur = Inl e \<longrightarrow>
                        a' = a\<lparr>store := d1, st_messages := ?msgs1,
                               ui := ui a @ [Markdown ''user'' prompt,
                                             ErrorBox (''SYSTEM FAILURE: '' @ str_exc e)]\<rparr>
                        \<and> messages (store a') = messages (store a) @ [row])"
    using d1(1,2) row hist a' by blast
qed

theorem submit_keeps_state_consistent_witness:
  "schema_ok (store sample_app)
   \<and> submit (app_env_with (Inr error_response)) ''Is it worn?'' None ''Role: engineer'' [] sample_app =
       Inr (sample_app\<lparr>ui := [Toast ''ERR: NO VISUAL INPUT DETECTED'']\<rparr>)
   \<and> (\<exists>d1. add_message sample_dumps 2 ''s1'' ''user'' ''Is it worn?'' None sample_store = Inr d1
          \<and> map (\<lambda>m. (m_session_id m, m_role m, m_content m, m_usage_data m)) (messages d1) =
               [(''s1'', ''user'', ''Is it worn?'', None)]
          \<and> submit (app_env_with (Inr error_response)) ''Is it worn?'' (Some (Uploaded ''png''))
               ''Role: engineer'' [] sample_app =
              Inr (sample_app\<lparr>store := d1,
                     st_messages := [\<lparr>msg_role = ''user'', msg_content = ''Is it worn?'',
                                      msg_usage = None\<rparr>],
                     ui := [Markdown ''user'' ''Is it worn?'',
                            ErrorBox ''SYSTEM FAILURE: Connection failed: API Error: boom'']\<rparr>))"
proof -
  let ?env = "app_env_with (Inr error_response)"
  let ?umsg = "\<lparr>msg_role = ''user'', msg_content = ''Is it worn?'', msg_usage = None\<rparr>"
  have ok: "schema_ok (store sample_app)" using sample_store_ok by (simp add: sample_app_def)
  have no: "\<not> truthy_image None" by (simp add: truthy_image_def)
  have yes: "truthy_image (Some (Uploaded ''png''))" by (simp add: truthy_image_def)
  have fields: "json_dumps ?env = sample_dumps" "now_user ?env = 2"
      "active_session_id sample_app = ''s1''" "store sample_app = sample_store"
      "st_messages sample_app = []" "ui sample_app = []"
    by (simp_all add: app_env_with_def sample_app_def)
  have empty: "messages sample_store = []" by (simp add: sample_store_def)
  have gw: "gateway_call ?env ''Is it worn?'' (the (Some (Uploaded ''png''))) ([] @ [?umsg])
              ''Role: engineer'' [] =
            Inl (RuntimeError ''Connection failed: API Error: boom'')"
    by (simp add: gateway_call_def image_bytes_def app_env_with_def chat_with_industrial_ai_def
        try_body_def env_with_def error_response_def Let_def)
  note inst = submit_keeps_state_consistent [OF ok, of _ ?env "''Is it worn?''" "''Role: engineer''" "[]"]
  have first: "submit ?env ''Is it worn?'' None ''Role: engineer'' [] sample_app =
       Inr (sample_app\<lparr>ui := [Toast ''ERR: NO VISUAL INPUT DETECTED'']\<rparr>)"
    using inst [of None] no by (simp add: fields)
  obtain d1 a' row where s: "add_message sample_dumps 2 ''s1'' ''user'' ''Is it worn?'' None sample_store = Inr d1"
      "messages d1 = [] @ [row]"
      "m_session_id row = ''s1''" "m_role row = ''user''" "m_content row = ''Is it worn?''"
      "m_usage_data row = None"
      "submit ?env ''Is it worn?'' (Some (Uploaded ''png'')) ''Role: engineer'' [] sample_app = Inr a'"
      "\<forall>e. gateway_call ?env ''Is it worn?'' (the (Some (Uploaded ''png''))) ([] @ [?umsg])
              ''Role: engineer'' [] = Inl e \<longrightarrow>
           a' = sample_app\<lparr>store := d1, st_messages := [] @ [?umsg],
                  ui := [] @ [Markdown ''user'' ''Is it worn?'',
                              ErrorBox (''SYSTEM FAILURE: '' @ str_exc e)]\<rparr>
           \<and> messages (store a') = [] @ [row]"
    using inst [of "Some (Uploaded ''png'')"] yes unfolding fields empty by blast
  from s(8) gw have a': "a' = sample_app\<lparr>store := d1, st_messages := [?umsg],
                     ui := [Markdown ''user'' ''Is it worn?'',
                            ErrorBox ''SYSTEM FAILURE: Connection failed: API Error: boom'']\<rparr>"
    by simp
  have rows: "map (\<lambda>m. (m_session_id m, m_role m, m_content m, m_usage_data m)) (messages d1) =
               [(''s1'', ''user'', ''Is it worn?'', None)]"
    using s(2-6) by simp
  show ?thesis
  proof (intro conjI exI)
    show "schema_ok (store sample_app)" by (rule ok)
    show "submit ?env ''Is it worn?'' None ''Role: engineer'' [] sample_app =
       Inr (sample_app\<lparr>ui := [Toast ''ERR: NO VISUAL INPUT DETECTED'']\<rparr>)" by (rule first)
    show "add_message sample_dumps 2 ''s1'' ''user'' ''Is it worn?'' None sample_store = Inr d1"
      by (rule s(1))
    show "map (\<lambda>m. (m_session_id m, m_role m, m_content m, m_usage_data m)) (messages d1) =
               [(''s1'', ''user'', ''Is it worn?'', None)]" by (rule rows)
    show "submit ?env ''Is it worn?'' (Some (Uploaded ''png'')) ''Role: engineer'' [] sample_app =
              Inr (sample_app\<lparr>store := d1, st_messages := [?umsg],
                     ui := [Markdown ''user'' ''Is it worn?'',
                            ErrorBox ''SYSTEM FAILURE: Connection failed: API Error: boom'']\<rparr>)"
      using s(7) a' by simp
  qed
qed

end
